theory Spec2Isabelle
  imports Main "HOL-Library.Sublist"
begin

section \<open>The fine-tuning script \<open>finetune_model.py\<close>\<close>

text \<open>
  The script is a straight-line pipeline of effects: it prints, asks the operator,
  creates directories, writes files and calls the training libraries. The embedding
  makes all of that explicit:
  \<^item> what the script reads from outside (command line, file system, clock, operator,
    libraries) is a read-only record \<open>world\<close>;
  \<^item> what it does is a list of \<open>event\<close>s in program order;
  \<^item> every \<open>raise\<close>, \<open>sys.exit\<close> and failing library call is a value \<open>Inl e\<close>
    of type \<open>exn + 'a\<close>.
\<close>

subsection \<open>Values of the training records and the prompt formatter\<close>

text \<open>
  A training record is a Python dict. The corpus fields are texts; a key whose value
  is JSON \<open>null\<close> (which is also what the dataset library stores for a key that a
  row does not have) is \<open>PyNone\<close>.
\<close>

datatype pyval = PyNone | PyStr string

type_synonym example = "(string \<times> pyval) list"

text \<open>\<open>d.get(k, default)\<close>\<close>

definition dict_get :: "example \<Rightarrow> string \<Rightarrow> pyval \<Rightarrow> pyval" where
  "dict_get d k dflt = (case map_of d k of None \<Rightarrow> dflt | Some v \<Rightarrow> v)"

text \<open>Truth value of \<open>if x:\<close> and the text an f-string puts for \<open>{x}\<close>.\<close>

fun truthy :: "pyval \<Rightarrow> bool" where
  "truthy PyNone = False"
| "truthy (PyStr s) = (s \<noteq> [])"

fun py_str :: "pyval \<Rightarrow> string" where
  "py_str PyNone = ''None''"
| "py_str (PyStr s) = s"

text \<open>
  \<open>format_instruction\<close> returns the dict \<open>{"text": prompt}\<close>; the model returns
  the prompt, the value of its only key.
\<close>

definition format_instruction :: "example \<Rightarrow> string" where
  "format_instruction ex =
     (let instruction = dict_get ex ''instruction'' (PyStr []);
          input_text = dict_get ex ''input'' (PyStr []);
          output_text = dict_get ex ''output'' (PyStr [])
      in if truthy input_text
         then ''### Instruction:\<newline>'' @ py_str instruction
              @ ''\<newline>\<newline>### Input:\<newline>'' @ py_str input_text
              @ ''\<newline>\<newline>### Response:\<newline>'' @ py_str output_text
         else ''### Instruction:\<newline>'' @ py_str instruction
              @ ''\<newline>\<newline>### Response:\<newline>'' @ py_str output_text)"

text \<open>
  The section headers that occur in a text, in the order of their positions: the text
  is scanned from left to right and every position at which one of the three header
  strings starts contributes that header.
\<close>

datatype header = HInstruction | HInput | HResponse

definition header_at :: "string \<Rightarrow> header option" where
  "header_at s =
     (if prefix ''### Instruction:'' s then Some HInstruction
      else if prefix ''### Input:'' s then Some HInput
      else if prefix ''### Response:'' s then Some HResponse
      else None)"

fun section_headers :: "string \<Rightarrow> header list" where
  "section_headers [] = []"
| "section_headers (c # cs) =
     (case header_at (c # cs) of Some h \<Rightarrow> [h] | None \<Rightarrow> []) @ section_headers cs"

subsection \<open>Paths, exceptions and effects\<close>

type_synonym path = string

text \<open>\<open>Path(a) / b\<close> for a relative \<open>b\<close>; a trailing separator of \<open>a\<close> is not doubled.\<close>

definition path_join :: "path \<Rightarrow> string \<Rightarrow> path" where
  "path_join a b =
     (if a = [] then b else if last a = CHR ''/'' then a @ b else a @ CHR ''/'' # b)"

fun split_on :: "char \<Rightarrow> string \<Rightarrow> string list" where
  "split_on c [] = [[]]"
| "split_on c (x # xs) =
     (if x = c then [] # split_on c xs
      else (case split_on c xs of [] \<Rightarrow> [[x]] | y # ys \<Rightarrow> (x # y) # ys))"

text \<open>\<open>Path(p).name\<close>: the last component, empty and \<open>.\<close> components dropped.\<close>

definition path_name :: "path \<Rightarrow> string" where
  "path_name p =
     (case rev (filter (\<lambda>s. s \<noteq> [] \<and> s \<noteq> ''.'') (split_on CHR ''/'' p)) of
        [] \<Rightarrow> []
      | n # _ \<Rightarrow> n)"

text \<open>
  What a Python statement can raise. \<open>SystemExit\<close> and \<open>KeyboardInterrupt\<close> are
  not subclasses of \<open>Exception\<close>; every other exception is \<open>Exception t m\<close> with
  \<open>t\<close> the name of its type and \<open>m\<close> the text \<open>str(e)\<close>.
\<close>

datatype exn = SystemExit int | KeyboardInterrupt | Exception string string

text \<open>\<open>d[k]\<close> on a missing key: \<open>str(KeyError(k))\<close> is the key in quotes.\<close>

definition KeyError :: "string \<Rightarrow> exn" where
  "KeyError k = Exception ''KeyError'' ([CHR 0x27] @ k @ [CHR 0x27])"

datatype event =
    Print string
  | Input string
  | MakeDirs path
  | WriteFile path string
  | CopyFile path path
  | Invoke string "string list"

text \<open>
  A statement sequence yields a value or an exception, and the events it performed
  up to that point.
\<close>

type_synonym 'a io = "(exn + 'a) \<times> event list"

definition returns :: "'a \<Rightarrow> 'a io" where
  "returns a = (Inr a, [])"

definition raise :: "exn \<Rightarrow> 'a io" where
  "raise e = (Inl e, [])"

definition emit :: "event \<Rightarrow> unit io" where
  "emit ev = (Inr (), [ev])"

definition bind_io :: "'a io \<Rightarrow> ('a \<Rightarrow> 'b io) \<Rightarrow> 'b io" where
  "bind_io m f =
     (case m of
        (Inl e, evs) \<Rightarrow> (Inl e, evs)
      | (Inr a, evs) \<Rightarrow> (case f a of (r, evs') \<Rightarrow> (r, evs @ evs')))"

definition then_io :: "'a io \<Rightarrow> 'b io \<Rightarrow> 'b io" where
  "then_io m k = bind_io m (\<lambda>_. k)"

subsection \<open>Clock and text helpers\<close>

text \<open>\<open>str(n)\<close> of a natural number.\<close>

fun str_nat :: "nat \<Rightarrow> string" where
  "str_nat n =
     (if n < 10 then [''0123456789'' ! n]
      else str_nat (n div 10) @ [''0123456789'' ! (n mod 10)])"

declare str_nat.simps [simp del]

definition zero_pad :: "nat \<Rightarrow> nat \<Rightarrow> string" where
  "zero_pad width n = (let s = str_nat n in replicate (width - length s) CHR ''0'' @ s)"

record datetime =
  year :: nat
  month :: nat
  day :: nat
  hour :: nat
  minute :: nat
  second :: nat
  microsecond :: nat

text \<open>\<open>strftime("%Y-%m-%d_%H-%M-%S")\<close>, the stamp of the incident file names.\<close>

definition strftime_file :: "datetime \<Rightarrow> string" where
  "strftime_file t =
     zero_pad 4 (year t) @ ''-'' @ zero_pad 2 (month t) @ ''-'' @ zero_pad 2 (day t) @ ''_''
     @ zero_pad 2 (hour t) @ ''-'' @ zero_pad 2 (minute t) @ ''-'' @ zero_pad 2 (second t)"

text \<open>\<open>strftime("%Y-%m-%d %H:%M:%S")\<close>\<close>

definition strftime_text :: "datetime \<Rightarrow> string" where
  "strftime_text t =
     zero_pad 4 (year t) @ ''-'' @ zero_pad 2 (month t) @ ''-'' @ zero_pad 2 (day t) @ '' ''
     @ zero_pad 2 (hour t) @ '':'' @ zero_pad 2 (minute t) @ '':'' @ zero_pad 2 (second t)"

text \<open>\<open>strftime("%d.%m.%Y")\<close>\<close>

definition strftime_date :: "datetime \<Rightarrow> string" where
  "strftime_date t = zero_pad 2 (day t) @ ''.'' @ zero_pad 2 (month t) @ ''.'' @ zero_pad 4 (year t)"

text \<open>\<open>isoformat()\<close>: the fraction is printed only when it is not zero.\<close>

definition isoformat :: "datetime \<Rightarrow> string" where
  "isoformat t =
     zero_pad 4 (year t) @ ''-'' @ zero_pad 2 (month t) @ ''-'' @ zero_pad 2 (day t) @ ''T''
     @ zero_pad 2 (hour t) @ '':'' @ zero_pad 2 (minute t) @ '':'' @ zero_pad 2 (second t)
     @ (if microsecond t = 0 then [] else ''.'' @ zero_pad 6 (microsecond t))"

definition py_bool :: "bool \<Rightarrow> string" where
  "py_bool b = (if b then ''True'' else ''False'')"

definition ascii_lower :: "char \<Rightarrow> char" where
  "ascii_lower c =
     (let n = of_char c :: nat in if 65 \<le> n \<and> n \<le> 90 then char_of (n + 32) else c)"

definition ascii_upper :: "char \<Rightarrow> char" where
  "ascii_upper c =
     (let n = of_char c :: nat in if 97 \<le> n \<and> n \<le> 122 then char_of (n - 32) else c)"

definition lower :: "string \<Rightarrow> string" where
  "lower s = map ascii_lower s"

definition upper :: "string \<Rightarrow> string" where
  "upper s = map ascii_upper s"

fun join :: "string \<Rightarrow> string list \<Rightarrow> string" where
  "join sep [] = []"
| "join sep [x] = x"
| "join sep (x # y # ys) = x @ sep @ join sep (y # ys)"

definition rule80 :: string where
  "rule80 = replicate 80 CHR ''=''"

subsection \<open>The world the script runs in\<close>

text \<open>
  The tokenizer is an external object. The script uses its pad and end-of-sequence
  tokens and calls it on texts; \<open>encode\<close> is its own encoding of a text (special
  tokens included), which the script does not look into. \<open>pad_left\<close> is its padding
  side and \<open>model_max_length\<close> the length it uses when a call names none.
\<close>

record tokenizer =
  encode :: "string \<Rightarrow> nat list"
  pad_token :: "nat option"
  eos_token :: "nat option"
  pad_left :: bool
  model_max_length :: nat

record encoded =
  input_ids :: "nat list"
  attention_mask :: "nat list"

text \<open>
  \<open>existing_paths\<close> and \<open>listdir\<close> are the file system at the start of the run
  (\<open>listdir\<close> in the order in which the directory is enumerated), \<open>datasets_load\<close> is
  the dataset library on a list of data files, \<open>fault\<close> says which of the named library
  calls and artifact writes raise, \<open>stack_frames\<close> is the text of the stack frames of
  a traceback. All clock reads of one run are the instant \<open>now\<close>. Printing, the
  accelerator queries, \<open>os.makedirs(..., exist_ok=True)\<close> and the writes of the
  incident logs under \<open>logs/\<close> are taken to succeed.
\<close>

record world =
  argv :: "string list"
  script_dir :: path
  env_developer_name :: "string option"
  env_organization :: "string option"
  env_role :: "string option"
  existing_paths :: "path list"
  listdir :: "path \<Rightarrow> string list"
  datasets_load :: "string list \<Rightarrow> exn + example list"
  tokenizer_at :: "path \<Rightarrow> tokenizer"
  cuda_available :: bool
  cuda_device_name :: string
  stdin_line :: string
  now :: datetime
  sys_version :: string
  sys_platform :: string
  stack_frames :: "exn \<Rightarrow> string"
  fault :: "string \<Rightarrow> exn option"

text \<open>\<open>Path.exists()\<close> and \<open>os.path.exists\<close> (false on the empty string).\<close>

definition path_exists :: "world \<Rightarrow> path \<Rightarrow> bool" where
  "path_exists w p = (p \<in> set (existing_paths w))"

definition os_path_exists :: "world \<Rightarrow> string \<Rightarrow> bool" where
  "os_path_exists w p = (p \<noteq> [] \<and> path_exists w p)"

text \<open>\<open>list(d.glob("*.jsonl"))\<close>: the entries whose name ends in \<open>.jsonl\<close>, as enumerated.\<close>

definition glob_jsonl :: "world \<Rightarrow> path \<Rightarrow> path list" where
  "glob_jsonl w d = map (path_join d) (filter (suffix ''.jsonl'') (listdir w d))"

text \<open>A library call: it is recorded, then it raises if the world says so.\<close>

definition call :: "world \<Rightarrow> string \<Rightarrow> string list \<Rightarrow> unit io" where
  "call w name args =
     then_io (emit (Invoke name args))
       (case fault w name of Some e \<Rightarrow> raise e | None \<Rightarrow> returns ())"

text \<open>A write of an artifact file: it raises, or the file is written.\<close>

definition write_file :: "world \<Rightarrow> string \<Rightarrow> path \<Rightarrow> string \<Rightarrow> unit io" where
  "write_file w name p content =
     (case fault w name of Some e \<Rightarrow> raise e | None \<Rightarrow> emit (WriteFile p content))"

subsection \<open>Configuration\<close>

definition FT_method :: string where "FT_method = ''LoRA''"
definition FT_version :: string where "FT_version = ''v1''"
definition FT_lora_r :: nat where "FT_lora_r = 16"
definition FT_lora_alpha :: nat where "FT_lora_alpha = 32"
definition FT_lora_dropout :: string where "FT_lora_dropout = ''0.05''"
definition FT_target_modules :: "string list" where
  "FT_target_modules = [''q_proj'', ''k_proj'', ''v_proj'', ''o_proj'']"

definition TR_num_epochs :: nat where "TR_num_epochs = 3"
definition TR_batch_size :: nat where "TR_batch_size = 4"
definition TR_gradient_accumulation_steps :: nat where "TR_gradient_accumulation_steps = 4"
definition TR_learning_rate :: string where "TR_learning_rate = ''0.0002''"
definition TR_max_seq_length :: nat where "TR_max_seq_length = 2048"
definition TR_warmup_steps :: nat where "TR_warmup_steps = 100"
definition TR_logging_steps :: nat where "TR_logging_steps = 10"
definition TR_save_steps :: nat where "TR_save_steps = 100"

text \<open>\<open>os.getenv(name, default)\<close>\<close>

definition getenv :: "string option \<Rightarrow> string \<Rightarrow> string" where
  "getenv v dflt = (case v of None \<Rightarrow> dflt | Some s \<Rightarrow> s)"

definition MD_finetuned_by :: "world \<Rightarrow> string" where
  "MD_finetuned_by w = getenv (env_developer_name w) ''Unknown Developer''"
definition MD_organization :: "world \<Rightarrow> string" where
  "MD_organization w = getenv (env_organization w) ''Unknown Organization''"
definition MD_role :: "world \<Rightarrow> string" where
  "MD_role w = getenv (env_role w) ''Unknown Role''"

definition SYS_gpu :: string where "SYS_gpu = ''NVIDIA RTX 4070 Mobile''"
definition SYS_vram :: string where "SYS_vram = ''8GB''"
definition SYS_cuda_version :: string where "SYS_cuda_version = ''12.0''"
definition SYS_ram :: string where "SYS_ram = ''32GB''"

text \<open>
  \<open>OUTPUT_CONFIG\<close> is a module-level dict that every stage reads by key. The stages
  take it as their first argument; \<open>OUTPUT_CONFIG\<close> below is the dict of the source,
  with its three keys, and \<open>main\<close> runs the pipeline on it.
\<close>

type_synonym config = "(string \<times> path) list"

definition OUTPUT_CONFIG :: "path \<Rightarrow> config" where
  "OUTPUT_CONFIG sd =
     [(''models_dir'', path_join sd ''Models''),
      (''training_data_dir'', path_join sd ''training data''),
      (''crash_reports_dir'', path_join sd ''logs'')]"

definition getitem :: "config \<Rightarrow> string \<Rightarrow> path io" where
  "getitem cfg k = (case map_of cfg k of None \<Rightarrow> raise (KeyError k) | Some v \<Rightarrow> returns v)"

subsection \<open>Utilities\<close>

definition print :: "string \<Rightarrow> unit io" where
  "print s = emit (Print s)"

definition print_header :: "string \<Rightarrow> unit io" where
  "print_header text =
     then_io (print (''\<newline>'' @ rule80))
    (then_io (print (''  '' @ text))
             (print (rule80 @ ''\<newline>'')))"

definition print_info :: "string \<Rightarrow> unit io" where
  "print_info text = print (''[INFO] '' @ text)"

definition print_success :: "string \<Rightarrow> unit io" where
  "print_success text = print (''[SUCCESS] '' @ text)"

definition print_error :: "string \<Rightarrow> unit io" where
  "print_error text = print (''[ERROR] '' @ text)"

definition print_warning :: "string \<Rightarrow> unit io" where
  "print_warning text = print (''[WARNING] '' @ text)"

text \<open>
  \<open>traceback.format_exc()\<close> inside an \<open>except\<close> block: the fixed first line, the
  frames, and the line of the exception.
\<close>

definition exn_line :: "exn \<Rightarrow> string" where
  "exn_line e =
     (case e of
        Exception t m \<Rightarrow> t @ '': '' @ m
      | KeyboardInterrupt \<Rightarrow> ''KeyboardInterrupt: ''
      | SystemExit n \<Rightarrow> ''SystemExit: '' @ (if n < 0 then ''-'' else []) @ str_nat (nat \<bar>n\<bar>))"

definition format_exc :: "world \<Rightarrow> exn \<Rightarrow> string" where
  "format_exc w e =
     ''Traceback (most recent call last):\<newline>'' @ stack_frames w e @ exn_line e @ ''\<newline>''"

definition context_section :: "string \<Rightarrow> string" where
  "context_section error_context =
     (if error_context \<noteq> [] then ''Context: '' @ error_context @ ''\<newline>\<newline>'' else [])"

definition crash_report_text :: "world \<Rightarrow> exn \<Rightarrow> string \<Rightarrow> string" where
  "crash_report_text w error error_context =
     rule80 @ ''\<newline>''
     @ ''FINE-TUNING SCRIPT CRASH REPORT\<newline>''
     @ rule80 @ ''\<newline>\<newline>''
     @ ''Timestamp: '' @ strftime_text (now w) @ ''\<newline>''
     @ ''Script: finetune_model.py\<newline>''
     @ ''Python: '' @ sys_version w @ ''\<newline>''
     @ ''Platform: '' @ sys_platform w @ ''\<newline>\<newline>''
     @ ''Configuration:\<newline>''
     @ ''  Method: '' @ FT_method @ ''\<newline>''
     @ ''  Version: '' @ FT_version @ ''\<newline>''
     @ ''  User: '' @ MD_finetuned_by w @ ''\<newline>''
     @ ''  Organization: '' @ MD_organization w @ ''\<newline>''
     @ ''  CUDA Available: '' @ py_bool (cuda_available w) @ ''\<newline>\<newline>''
     @ context_section error_context
     @ ''Error:\<newline>''
     @ exn_line error @ ''\<newline>\<newline>''
     @ ''Traceback:\<newline>''
     @ format_exc w error
     @ ''\<newline>'' @ rule80 @ ''\<newline>''"

definition crash_report_name :: "datetime \<Rightarrow> string" where
  "crash_report_name t = ''crash_report_finetune_model_'' @ strftime_file t @ ''.log''"

definition write_crash_report :: "config \<Rightarrow> world \<Rightarrow> exn \<Rightarrow> string \<Rightarrow> path io" where
  "write_crash_report cfg w error error_context =
     bind_io (getitem cfg ''crash_reports_dir'') (\<lambda>d.
     then_io (emit (MakeDirs d))
       (let report_path = path_join d (crash_report_name (now w)) in
        then_io (emit (WriteFile report_path (crash_report_text w error error_context)))
       (then_io (print_error (''Crash report saved: '' @ report_path))
                (returns report_path))))"

definition check_system :: "config \<Rightarrow> world \<Rightarrow> unit io" where
  "check_system cfg w =
     then_io (print_header ''System Check'')
    (then_io (print_info (''GPU: '' @ SYS_gpu @ '', '' @ SYS_vram))
    (then_io (print_info (''CUDA Available: '' @ py_bool (cuda_available w)))
    (then_io (if cuda_available w then print_info (''CUDA Device: '' @ cuda_device_name w)
              else returns ())
    (bind_io (getitem cfg ''models_dir'') (\<lambda>models_dir.
     then_io (emit (MakeDirs models_dir))
    (bind_io (getitem cfg ''documentation_dir'') (\<lambda>documentation_dir.
     then_io (emit (MakeDirs documentation_dir))
             (print_success ''Output directories ready''))))))))"

definition missing_license_text :: "world \<Rightarrow> path \<Rightarrow> path \<Rightarrow> string" where
  "missing_license_text w source_model_path output_dir =
     rule80 @ ''\<newline>''
     @ ''MISSING LICENSE WARNING\<newline>''
     @ rule80 @ ''\<newline>\<newline>''
     @ ''Timestamp: '' @ strftime_text (now w) @ ''\<newline>''
     @ ''Source Model: '' @ source_model_path @ ''\<newline>''
     @ ''Output Directory: '' @ output_dir @ ''\<newline>''
     @ ''\<newline>WARNING: No LICENSE file found in source model.\<newline>''
     @ ''This may indicate licensing compliance issues.\<newline>''
     @ ''Please verify the licensing terms before distribution.\<newline>''"

definition missing_license_name :: "datetime \<Rightarrow> string" where
  "missing_license_name t = ''missing_license_'' @ strftime_file t @ ''.log''"

definition copy_license_or_log :: "config \<Rightarrow> world \<Rightarrow> path \<Rightarrow> path \<Rightarrow> unit io" where
  "copy_license_or_log cfg w source_model_path output_dir =
     (let source_license = path_join source_model_path ''LICENSE'' in
      if path_exists w source_license
      then (let dest_license = path_join output_dir ''LICENSE'' in
            then_io (case fault w ''shutil.copy2'' of
                       Some e \<Rightarrow> raise e
                     | None \<Rightarrow> emit (CopyFile source_license dest_license))
                    (print_success ''Copied LICENSE to output''))
      else bind_io (getitem cfg ''crash_reports_dir'') (\<lambda>d.
           then_io (emit (MakeDirs d))
             (let log_path = path_join d (missing_license_name (now w)) in
              then_io (emit (WriteFile log_path
                               (missing_license_text w source_model_path output_dir)))
                      (print_warning (''No LICENSE found - logged to: '' @ log_path)))))"

subsection \<open>Data preparation\<close>

definition load_dataset :: "world \<Rightarrow> string list \<Rightarrow> example list io" where
  "load_dataset w data_files =
     then_io (emit (Invoke ''load_dataset'' data_files))
       (case datasets_load w data_files of Inl e \<Rightarrow> raise e | Inr ds \<Rightarrow> returns ds)"

definition load_training_data :: "config \<Rightarrow> world \<Rightarrow> string \<Rightarrow> example list io" where
  "load_training_data cfg w version =
     then_io (print_header (''Loading Training Data - '' @ version))
    (bind_io (getitem cfg ''training_data_dir'') (\<lambda>training_data_dir.
       let data_dir = path_join training_data_dir version in
       if \<not> path_exists w data_dir
       then then_io (print_error (''Training data not found: '' @ data_dir))
                    (raise (SystemExit 1))
       else
         let jsonl_files = glob_jsonl w data_dir in
         if jsonl_files = []
         then then_io (print_error (''No .jsonl files found in '' @ data_dir))
                      (raise (SystemExit 1))
         else
           then_io (print_info (''Found '' @ str_nat (length jsonl_files)
                                @ '' training file(s)''))
          (then_io (Inr (), map (\<lambda>file. Print (''[INFO]   - '' @ path_name file)) jsonl_files)
          (bind_io (load_dataset w jsonl_files) (\<lambda>dataset.
           then_io (print_success (''Loaded '' @ str_nat (length dataset)
                                   @ '' training examples''))
                   (returns dataset))))))"

text \<open>
  Modelled from the spec: the call of the external tokenizer on a batch of texts, which
  is not code of this repository (Sequence Encoder: ``length exactly maxSequenceLength,
  truncating overflow and padding underflow''; ``a hard failure on tokenizers without
  an explicit pad token''). The call takes the three arguments that the script passes:
  \<^item> \<open>truncation\<close>: whether the ids of a text are cut to the maximal length;
  \<^item> \<open>max_length\<close>: the maximal length, the tokenizer's own when \<open>None\<close>;
  \<^item> \<open>padding\<close>: \<open>False\<close> (no padding), \<open>True\<close> (to the longest text of the batch)
    or \<open>"max_length"\<close> (to the maximal length).
  When padding is asked for and the tokenizer has no pad token, the call raises.
\<close>

datatype padding_strategy = DoNotPad | Longest | MaxLength

definition unpadded :: "nat list \<Rightarrow> encoded" where
  "unpadded ids = \<lparr>input_ids = ids, attention_mask = replicate (length ids) 1\<rparr>"

definition pad_to :: "tokenizer \<Rightarrow> nat \<Rightarrow> nat \<Rightarrow> nat list \<Rightarrow> encoded" where
  "pad_to tok pad n ids =
     (let k = n - length ids
      in if pad_left tok
         then \<lparr>input_ids = replicate k pad @ ids,
               attention_mask = replicate k 0 @ replicate (length ids) 1\<rparr>
         else \<lparr>input_ids = ids @ replicate k pad,
               attention_mask = replicate (length ids) 1 @ replicate k 0\<rparr>)"

definition no_pad_token_error :: exn where
  "no_pad_token_error =
     Exception ''ValueError'' ''Asking to pad but the tokenizer does not have a padding token.''"

definition tokenizer_call ::
  "tokenizer \<Rightarrow> string list \<Rightarrow> bool \<Rightarrow> nat option \<Rightarrow> padding_strategy \<Rightarrow> exn + encoded list" where
  "tokenizer_call tok texts truncation max_length padding =
     (let n = (case max_length of None \<Rightarrow> model_max_length tok | Some k \<Rightarrow> k);
          idss = map (\<lambda>text. if truncation then take n (encode tok text) else encode tok text)
                   texts
      in case padding of
           DoNotPad \<Rightarrow> Inr (map unpadded idss)
         | Longest \<Rightarrow>
             (case pad_token tok of
                None \<Rightarrow> Inl no_pad_token_error
              | Some pad \<Rightarrow> Inr (map (pad_to tok pad (foldr max (map length idss) 0)) idss))
         | MaxLength \<Rightarrow>
             (case pad_token tok of
                None \<Rightarrow> Inl no_pad_token_error
              | Some pad \<Rightarrow> Inr (map (pad_to tok pad n) idss)))"

text \<open>
  \<open>tokenize_function\<close>, the closure of \<open>prepare_dataset\<close>, on one batch of texts:
  \<open>tokenizer(examples["text"], truncation=True, max_length=..., padding="max_length")\<close>.
\<close>

definition tokenize_function :: "tokenizer \<Rightarrow> string list \<Rightarrow> exn + encoded list" where
  "tokenize_function tok texts =
     tokenizer_call tok texts True (Some TR_max_seq_length) MaxLength"

text \<open>
  \<open>Dataset.map(f, batched=True)\<close> hands the rows to \<open>f\<close> in batches of 1000, in order,
  and puts the results together in the same order; the first batch that raises ends it.
\<close>

function chunks :: "nat \<Rightarrow> 'a list \<Rightarrow> 'a list list" where
  "chunks n xs = (if n = 0 \<or> xs = [] then [] else take n xs # chunks n (drop n xs))"
  by pat_completeness auto
termination
  by (relation "measure (\<lambda>(n, xs). length xs)") auto

declare chunks.simps [simp del]

fun collect :: "(exn + 'a list) list \<Rightarrow> exn + 'a list" where
  "collect [] = Inr []"
| "collect (r # rs) =
     (case r of
        Inl e \<Rightarrow> Inl e
      | Inr xs \<Rightarrow> (case collect rs of Inl e \<Rightarrow> Inl e | Inr ys \<Rightarrow> Inr (xs @ ys)))"

definition map_batched :: "('a list \<Rightarrow> exn + 'b list) \<Rightarrow> 'a list \<Rightarrow> exn + 'b list" where
  "map_batched f rows = collect (map f (chunks 1000 rows))"

text \<open>
  On a dataset without rows \<open>Dataset.map\<close> calls no function and adds no column: the
  first map leaves the dataset without a column \<open>text\<close>, and the second map, which is
  to remove that column, raises.
\<close>

definition missing_column_error :: exn where
  "missing_column_error =
     Exception ''ValueError''
       (''Column to remove ['' @ [CHR 0x27] @ ''text'' @ [CHR 0x27] @ ''] not in the dataset.'')"

definition prepare_dataset :: "world \<Rightarrow> example list \<Rightarrow> tokenizer \<Rightarrow> encoded list io" where
  "prepare_dataset w dataset tok =
     then_io (print_header ''Preparing Dataset'')
    (bind_io (then_io (call w ''Dataset.map(format_instruction)'' [])
                      (returns (map format_instruction dataset))) (\<lambda>texts.
     bind_io (then_io (call w ''Dataset.map(tokenize_function)'' [])
                (if texts = [] then raise missing_column_error
                 else (case map_batched (tokenize_function tok) texts of
                         Inl e \<Rightarrow> raise e
                       | Inr encs \<Rightarrow> returns encs))) (\<lambda>tokenized_dataset.
     then_io (print_success (''Dataset prepared: '' @ str_nat (length tokenized_dataset)
                             @ '' examples''))
             (returns tokenized_dataset))))"

subsection \<open>Model setup\<close>

record lora_config =
  lora_r :: nat
  lora_alpha :: nat
  target_modules :: "string list"
  lora_dropout :: string
  bias :: string
  task_type :: string

datatype model = BaseModel path | PeftModel model lora_config

definition setup_model_and_tokenizer :: "world \<Rightarrow> path \<Rightarrow> (model \<times> tokenizer) io" where
  "setup_model_and_tokenizer w model_path =
     then_io (print_header ''Loading Model and Tokenizer'')
    (bind_io (then_io (call w ''AutoTokenizer.from_pretrained'' [model_path])
                      (returns (tokenizer_at w model_path))) (\<lambda>tokenizer0.
       let tokenizer = (if pad_token tokenizer0 = None
                        then tokenizer0\<lparr>pad_token := eos_token tokenizer0\<rparr>
                        else tokenizer0) in
     bind_io (then_io (call w ''AutoModelForCausalLM.from_pretrained'' [model_path])
                      (returns (BaseModel model_path))) (\<lambda>model0.
     then_io (print_success (''Model loaded: '' @ model_path))
       (let cfg = \<lparr>lora_r = FT_lora_r, lora_alpha = FT_lora_alpha,
                   target_modules = FT_target_modules, lora_dropout = FT_lora_dropout,
                   bias = ''none'', task_type = ''CAUSAL_LM''\<rparr> in
     bind_io (then_io (call w ''get_peft_model'' [])
                      (returns (PeftModel model0 cfg))) (\<lambda>model.
     then_io (call w ''print_trainable_parameters'' [])
    (then_io (print_success ''LoRA adapters configured'')
             (returns (model, tokenizer))))))))"

subsection \<open>Training\<close>

definition json_str :: "string \<Rightarrow> string" where
  "json_str x = [CHR 0x22] @ x @ [CHR 0x22]"

text \<open>A list of strings at nesting depth 2 under \<open>json.dump(..., indent=2)\<close>.\<close>

definition json_list :: "string list \<Rightarrow> string" where
  "json_list xs =
     (if xs = [] then ''[]''
      else ''[\<newline>'' @ join '',\<newline>'' (map (\<lambda>x. ''      '' @ json_str x) xs) @ ''\<newline>    ]'')"

text \<open>The metadata descriptor \<open>finetuning_config.json\<close>, one entry per line.\<close>

definition finetuning_config_json :: "world \<Rightarrow> string \<Rightarrow> string" where
  "finetuning_config_json w version =
     ''{\<newline>''
     @ ''  \"method\": '' @ json_str FT_method @ '',\<newline>''
     @ ''  \"version\": '' @ json_str version @ '',\<newline>''
     @ ''  \"lora_config\": {\<newline>''
     @ ''    \"r\": '' @ str_nat FT_lora_r @ '',\<newline>''
     @ ''    \"alpha\": '' @ str_nat FT_lora_alpha @ '',\<newline>''
     @ ''    \"dropout\": '' @ FT_lora_dropout @ '',\<newline>''
     @ ''    \"target_modules\": '' @ json_list FT_target_modules @ ''\<newline>''
     @ ''  },\<newline>''
     @ ''  \"training_config\": {\<newline>''
     @ ''    \"num_epochs\": '' @ str_nat TR_num_epochs @ '',\<newline>''
     @ ''    \"batch_size\": '' @ str_nat TR_batch_size @ '',\<newline>''
     @ ''    \"gradient_accumulation_steps\": '' @ str_nat TR_gradient_accumulation_steps
     @ '',\<newline>''
     @ ''    \"learning_rate\": '' @ TR_learning_rate @ '',\<newline>''
     @ ''    \"max_seq_length\": '' @ str_nat TR_max_seq_length @ '',\<newline>''
     @ ''    \"warmup_steps\": '' @ str_nat TR_warmup_steps @ '',\<newline>''
     @ ''    \"logging_steps\": '' @ str_nat TR_logging_steps @ '',\<newline>''
     @ ''    \"save_steps\": '' @ str_nat TR_save_steps @ ''\<newline>''
     @ ''  },\<newline>''
     @ ''  \"finetuned_date\": '' @ json_str (isoformat (now w)) @ '',\<newline>''
     @ ''  \"finetuned_by\": '' @ json_str (MD_finetuned_by w) @ '',\<newline>''
     @ ''  \"organization\": '' @ json_str (MD_organization w) @ '',\<newline>''
     @ ''  \"role\": '' @ json_str (MD_role w) @ '',\<newline>''
     @ ''  \"system\": {\<newline>''
     @ ''    \"gpu\": '' @ json_str SYS_gpu @ '',\<newline>''
     @ ''    \"vram\": '' @ json_str SYS_vram @ '',\<newline>''
     @ ''    \"cuda_version\": '' @ json_str SYS_cuda_version @ '',\<newline>''
     @ ''    \"ram\": '' @ json_str SYS_ram @ ''\<newline>''
     @ ''  }\<newline>''
     @ ''}''"

text \<open>
  \<open>original_model_path\<close> is read from \<open>sys.argv\<close> again; the licence step runs only
  when it is there and not the empty string.
\<close>

definition train_model ::
  "config \<Rightarrow> world \<Rightarrow> model \<Rightarrow> tokenizer \<Rightarrow> encoded list \<Rightarrow> string \<Rightarrow> string \<Rightarrow> path io" where
  "train_model cfg w mdl tok dataset model_name version =
     then_io (print_header ''Fine-Tuning Model'')
       (let output_name = model_name @ ''_ft_'' @ version in
     bind_io (getitem cfg ''models_dir'') (\<lambda>models_dir.
       let output_dir = path_join models_dir output_name in
     then_io (call w ''TrainingArguments'' [output_dir])
    (then_io (call w ''DataCollatorForLanguageModeling'' [])
    (then_io (call w ''Trainer'' [output_dir])
    (then_io (print_info ''Starting training...'')
    (then_io (call w ''Trainer.train'' [output_dir])
    (then_io (print_info ''Saving model...'')
    (then_io (call w ''model.save_pretrained'' [output_dir])
    (then_io (call w ''tokenizer.save_pretrained'' [output_dir])
    (then_io (let original_model_path =
                    (if length (argv w) > 1 then Some (argv w ! 1) else None) in
              case original_model_path of
                None \<Rightarrow> returns ()
              | Some p \<Rightarrow> if p \<noteq> [] then copy_license_or_log cfg w p output_dir
                          else returns ())
       (let config_path = path_join output_dir ''finetuning_config.json'' in
     then_io (write_file w ''finetuning_config.json'' config_path
                (finetuning_config_json w version))
    (then_io (print_success (''Model saved: '' @ output_dir))
             (returns output_dir)))))))))))))"

subsection \<open>Documentation\<close>

definition doc_content :: "world \<Rightarrow> string \<Rightarrow> string \<Rightarrow> nat \<Rightarrow> string" where
  "doc_content w model_name version dataset_size =
     ''# '' @ model_name @ '' - Fine-Tuned '' @ upper version @ ''\<newline>''
     @ ''\<newline>''
     @ ''## Fine-Tuning Information\<newline>''
     @ ''- **Changed by**: '' @ MD_finetuned_by w @ ''\<newline>''
     @ ''- **Organization**: '' @ MD_organization w @ ''\<newline>''
     @ ''- **Role**: '' @ MD_role w @ ''\<newline>''
     @ ''- **Date**: '' @ strftime_date (now w) @ ''\<newline>''
     @ ''- **Source Model**: ['' @ model_name @ ''.md]('' @ model_name @ ''.md)\<newline>''
     @ ''\<newline>''
     @ ''## Changes Made\<newline>''
     @ ''- Applied LoRA (Low-Rank Adaptation) fine-tuning\<newline>''
     @ ''- Training data: '' @ str_nat dataset_size @ '' examples ('' @ version @ '')\<newline>''
     @ ''- Specialized for BigQuery SQL and web analytics queries\<newline>''
     @ ''- Target modules: '' @ join '', '' FT_target_modules @ ''\<newline>''
     @ ''\<newline>''
     @ ''## Fine-Tuning Details\<newline>''
     @ ''- **Method**: '' @ FT_method @ ''\<newline>''
     @ ''- **Version**: '' @ version @ ''\<newline>''
     @ ''- **LoRA Rank (r)**: '' @ str_nat FT_lora_r @ ''\<newline>''
     @ ''- **LoRA Alpha**: '' @ str_nat FT_lora_alpha @ ''\<newline>''
     @ ''- **Dropout**: '' @ FT_lora_dropout @ ''\<newline>''
     @ ''- **Epochs**: '' @ str_nat TR_num_epochs @ ''\<newline>''
     @ ''- **Learning Rate**: '' @ TR_learning_rate @ ''\<newline>''
     @ ''- **Batch Size**: '' @ str_nat TR_batch_size @ ''\<newline>''
     @ ''- **Max Sequence Length**: '' @ str_nat TR_max_seq_length @ ''\<newline>''
     @ ''\<newline>''
     @ ''## Training Data\<newline>''
     @ ''- **Location**: `training data/'' @ version @ ''/`\<newline>''
     @ ''- **Format**: JSONL (instruction, input, output)\<newline>''
     @ ''- **Domain**: BigQuery SQL for web analytics\<newline>''
     @ ''- **Examples**: '' @ str_nat dataset_size @ ''\<newline>''
     @ ''\<newline>''
     @ ''## System Requirements\<newline>''
     @ ''- **GPU**: Recommended for inference (can run on CPU)\<newline>''
     @ ''- **VRAM**: 4-6GB for inference\<newline>''
     @ ''- **RAM**: 16GB minimum\<newline>''
     @ ''\<newline>''
     @ ''## Performance Notes\<newline>''
     @ ''- Specialized for BigQuery Standard SQL\<newline>''
     @ ''- Improved understanding of web analytics schemas\<newline>''
     @ ''- Better at generating aggregate queries and window functions\<newline>''
     @ ''- Maintains general code generation capabilities\<newline>''
     @ ''\<newline>''
     @ ''## Next Steps\<newline>''
     @ ''1. Test on validation queries\<newline>''
     @ ''2. Quantize fine-tuned model for CPU deployment\<newline>''
     @ ''3. Compare with base model performance\<newline>''
     @ ''4. Iterate with additional training data (v2, v3, etc.)\<newline>''"

definition generate_documentation ::
  "config \<Rightarrow> world \<Rightarrow> string \<Rightarrow> path \<Rightarrow> path \<Rightarrow> string \<Rightarrow> nat \<Rightarrow> unit io" where
  "generate_documentation cfg w model_name output_dir original_path version dataset_size =
     then_io (print_header ''Generating Documentation'')
       (let content = doc_content w model_name version dataset_size;
            doc_filename = model_name @ ''_ft_'' @ version @ ''.md'' in
     bind_io (getitem cfg ''documentation_dir'') (\<lambda>documentation_dir.
       let doc_path = path_join documentation_dir doc_filename in
     then_io (write_file w ''documentation'' doc_path content)
             (print_success (''Documentation: '' @ doc_path))))"

subsection \<open>Main\<close>

text \<open>\<open>input(prompt)\<close>: the prompt is shown and the operator's line is returned.\<close>

definition input :: "world \<Rightarrow> string \<Rightarrow> string io" where
  "input w prompt = then_io (emit (Input prompt)) (returns (stdin_line w))"

text \<open>The body of the \<open>try\<close> block of \<open>main\<close>.\<close>

definition main_body :: "config \<Rightarrow> world \<Rightarrow> unit io" where
  "main_body cfg w =
     then_io (print_header (''Fine-Tuning Script - '' @ FT_method))
    (then_io (print_info (strftime_text (now w)))
       (if length (argv w) \<noteq> 2
        then then_io (print_error ''Usage: python finetune_model.py <model_path>'')
            (then_io (print_info
                        ''Example: python finetune_model.py Models/qwen2.5-coder-1.5b-instruct'')
                     (raise (SystemExit 1)))
        else
          let model_path = argv w ! 1 in
          if \<not> os_path_exists w model_path
          then then_io (print_error (''Model not found: '' @ model_path))
                       (raise (SystemExit 1))
          else
            then_io (check_system cfg w)
           (then_io (if \<not> cuda_available w
                     then then_io (print_warning
                                     ''CUDA not available. Fine-tuning will be very slow on CPU.'')
                         (bind_io (input w ''Continue anyway? (y/n): '') (\<lambda>response.
                            if lower response \<noteq> ''y'' then raise (SystemExit 0)
                            else returns ()))
                     else returns ())
              (let version = FT_version; model_name = path_name model_path in
            bind_io (load_training_data cfg w version) (\<lambda>dataset.
            bind_io (setup_model_and_tokenizer w model_path) (\<lambda>(mdl, tok).
            bind_io (prepare_dataset w dataset tok) (\<lambda>prepared_dataset.
            bind_io (train_model cfg w mdl tok prepared_dataset model_name version)
              (\<lambda>output_dir.
            then_io (generate_documentation cfg w model_name output_dir model_path version
                       (length dataset))
           (then_io (print_header (''Complete '' @ [CHR 0xE2, CHR 0x9C, CHR 0x85]))
           (then_io (print_success (''Fine-tuned model: '' @ output_dir))
                    (print_info
                       ''Next: Quantize the fine-tuned model for CPU deployment'')))))))))))"

text \<open>
  How the process ends: \<open>main\<close> returns (the interpreter then exits with status 0), a
  \<open>sys.exit(n)\<close>, or an exception that nothing catches (status 1).
\<close>

datatype outcome = Completed | Exited int | Uncaught exn

fun exit_status :: "outcome \<Rightarrow> int" where
  "exit_status Completed = 0"
| "exit_status (Exited n) = n"
| "exit_status (Uncaught e) = 1"

text \<open>
  The \<open>except\<close> clauses of \<open>main\<close>. \<open>SystemExit\<close> passes both; an exception raised
  inside a handler is not caught by the other one.
\<close>

definition main_with :: "config \<Rightarrow> world \<Rightarrow> outcome \<times> event list" where
  "main_with cfg w =
     (case main_body cfg w of
        (Inr _, evs) \<Rightarrow> (Completed, evs)
      | (Inl (SystemExit n), evs) \<Rightarrow> (Exited n, evs)
      | (Inl KeyboardInterrupt, evs) \<Rightarrow>
          (Exited 130, evs @ [Print (''[WARNING] \<newline>Interrupted by user'')])
      | (Inl (Exception t m), evs) \<Rightarrow>
          (case then_io (print_error (''Failed: '' @ m))
                  (write_crash_report cfg w (Exception t m)
                     (''Model: '' @ (if length (argv w) > 1 then argv w ! 1 else ''unknown'')))
           of (Inr _, evs') \<Rightarrow> (Exited 1, evs @ evs')
            | (Inl (SystemExit n), evs') \<Rightarrow> (Exited n, evs @ evs')
            | (Inl e, evs') \<Rightarrow> (Uncaught e, evs @ evs')))"

definition main :: "world \<Rightarrow> outcome \<times> event list" where
  "main w = main_with (OUTPUT_CONFIG (script_dir w)) w"

subsection \<open>Reading a trace\<close>

text \<open>\<open>names_file name p\<close>: the last component of the path \<open>p\<close> is \<open>name\<close>.\<close>

definition names_file :: "string \<Rightarrow> path \<Rightarrow> bool" where
  "names_file name p = (p = name \<or> suffix (CHR ''/'' # name) p)"

text \<open>
  A copy from or to a file named \<open>LICENSE\<close>, and a write of a file named as the
  missing-licence log of this run or as its crash report, wherever they are.
\<close>

definition is_license_copy :: "event \<Rightarrow> bool" where
  "is_license_copy ev =
     (case ev of CopyFile s d \<Rightarrow> names_file ''LICENSE'' s \<or> names_file ''LICENSE'' d
      | _ \<Rightarrow> False)"

definition is_missing_license_log :: "world \<Rightarrow> event \<Rightarrow> bool" where
  "is_missing_license_log w ev =
     (case ev of WriteFile p c \<Rightarrow> names_file (missing_license_name (now w)) p | _ \<Rightarrow> False)"

definition is_crash_report :: "world \<Rightarrow> event \<Rightarrow> bool" where
  "is_crash_report w ev =
     (case ev of WriteFile p c \<Rightarrow> names_file (crash_report_name (now w)) p | _ \<Rightarrow> False)"

definition is_prompt :: "event \<Rightarrow> bool" where
  "is_prompt ev = (case ev of Input s \<Rightarrow> True | _ \<Rightarrow> False)"

definition is_invoke :: "event \<Rightarrow> bool" where
  "is_invoke ev = (case ev of Invoke n args \<Rightarrow> True | _ \<Rightarrow> False)"

text \<open>
  The licence record in the events of a run with the incident directory \<open>logs\<close> and
  the artifact directory \<open>out\<close>. When the base model has a \<open>LICENSE\<close> file, the only
  licence copy among the events is the copy of that file to \<open>out/LICENSE\<close>, and no
  missing-licence log is written; otherwise no licence is copied and the only
  missing-licence log is the one written under \<open>logs\<close>, with the text of the script.
\<close>

definition license_recorded_once :: "world \<Rightarrow> path \<Rightarrow> path \<Rightarrow> event list \<Rightarrow> bool" where
  "license_recorded_once w logs out evs \<longleftrightarrow>
     (if path_exists w (path_join (argv w ! 1) ''LICENSE'')
      then filter is_license_copy evs
             = [CopyFile (path_join (argv w ! 1) ''LICENSE'') (path_join out ''LICENSE'')]
         \<and> filter (is_missing_license_log w) evs = []
      else filter is_license_copy evs = []
         \<and> filter (is_missing_license_log w) evs
             = [WriteFile (path_join logs (missing_license_name (now w)))
                  (missing_license_text w (argv w ! 1) out)])"

text \<open>An event that creates or fills the directory \<open>d\<close> or something below it.\<close>

definition creates_under :: "path \<Rightarrow> event \<Rightarrow> bool" where
  "creates_under d ev =
     (case ev of
        MakeDirs p \<Rightarrow> prefix d p
      | WriteFile p c \<Rightarrow> prefix d p
      | CopyFile s p \<Rightarrow> prefix d p
      | Invoke n args \<Rightarrow> list_ex (prefix d) args
      | _ \<Rightarrow> False)"

text \<open>
  The files written with \<open>open(p, "w")\<close> by a sequence of events, a later write
  replacing the content of an earlier one to the same path.
\<close>

type_synonym store = "(path \<times> string) list"

fun store_write :: "path \<Rightarrow> string \<Rightarrow> store \<Rightarrow> store" where
  "store_write p c [] = [(p, c)]"
| "store_write p c ((q, d) # fs) =
     (if p = q then (q, c) # fs else (q, d) # store_write p c fs)"

fun apply_event :: "store \<Rightarrow> event \<Rightarrow> store" where
  "apply_event fs (WriteFile p c) = store_write p c fs"
| "apply_event fs _ = fs"

definition written_files :: "event list \<Rightarrow> store" where
  "written_files evs = foldl apply_event [] evs"

text \<open>
  Modelled from the spec: the dataset library, which is not code of this repository
  (``loads all matching files into one ordered sequence of records, concatenated'').
  It reads the data files in the order of the list it is given; \<open>contents f\<close> are
  the records of the file \<open>f\<close>.
\<close>

definition concat_loader :: "(path \<Rightarrow> example list) \<Rightarrow> string list \<Rightarrow> exn + example list" where
  "concat_loader contents data_files = Inr (concat (map contents data_files))"

subsection \<open>Concrete runs\<close>

text \<open>
  The dict of the source with the key \<open>documentation_dir\<close>, which \<open>check_system\<close> and
  \<open>generate_documentation\<close> read, added.
\<close>

definition OUTPUT_CONFIG_documented :: "path \<Rightarrow> config" where
  "OUTPUT_CONFIG_documented sd =
     OUTPUT_CONFIG sd @ [(''documentation_dir'', path_join sd ''Documentation'')]"

definition example_a :: example where
  "example_a = [(''instruction'', PyStr ''Count sessions''), (''input'', PyStr ''table events''),
                (''output'', PyStr ''SELECT COUNT(*) FROM events'')]"

definition example_b :: example where
  "example_b = [(''instruction'', PyStr ''List users''), (''input'', PyNone),
                (''output'', PyStr ''SELECT * FROM users'')]"

definition corpus :: "path \<Rightarrow> example list" where
  "corpus f =
     (if f = ''/app/training data/v1/a.jsonl'' then [example_a]
      else if f = ''/app/training data/v1/b.jsonl'' then [example_b]
      else [])"

text \<open>
  A run on an accelerator with a base model without licence file and a version
  directory that the file system enumerates as \<open>b.jsonl\<close>, \<open>notes.txt\<close>, \<open>a.jsonl\<close>.
\<close>

definition world_ok :: world where
  "world_ok =
     \<lparr>argv = [''finetune_model.py'', ''Models/base''],
      script_dir = ''/app'',
      env_developer_name = None, env_organization = None, env_role = None,
      existing_paths = [''Models/base'', ''/app/training data/v1''],
      listdir = (\<lambda>d. if d = ''/app/training data/v1''
                     then [''b.jsonl'', ''notes.txt'', ''a.jsonl''] else []),
      datasets_load = concat_loader corpus,
      tokenizer_at = (\<lambda>p. \<lparr>encode = map of_char, pad_token = None, eos_token = Some 0,
                            pad_left = False, model_max_length = 32768\<rparr>),
      cuda_available = True, cuda_device_name = ''NVIDIA RTX 4070'',
      stdin_line = ''n'',
      now = \<lparr>year = 2025, month = 1, day = 15, hour = 10, minute = 30, second = 7,
             microsecond = 250000\<rparr>,
      sys_version = ''3.11.4'', sys_platform = ''linux'',
      stack_frames = (\<lambda>e. ''  File finetune_model.py, in main\<newline>''),
      fault = (\<lambda>name. None)\<rparr>"

text \<open>The same run with a licence file in the base model.\<close>

definition world_licensed :: world where
  "world_licensed =
     world_ok\<lparr>existing_paths := ''Models/base/LICENSE'' # existing_paths world_ok\<rparr>"

text \<open>No accelerator, and the operator answers \<open>n\<close>.\<close>

definition world_declined :: world where
  "world_declined = world_ok\<lparr>cuda_available := False, stdin_line := ''n''\<rparr>"

text \<open>The version directory \<open>training data/v1\<close> does not exist.\<close>

definition world_no_data :: world where
  "world_no_data = world_ok\<lparr>existing_paths := [''Models/base'']\<rparr>"

text \<open>The write of the documentation file fails.\<close>

definition world_doc_fails :: world where
  "world_doc_fails =
     world_ok\<lparr>fault := (\<lambda>name. if name = ''documentation''
                               then Some (Exception ''PermissionError'' ''[Errno 13] Permission denied'')
                               else None)\<rparr>"

text \<open>
  A second failing run, on another base model, 0.5 seconds after \<open>world_ok\<close>.
\<close>

definition world_later :: world where
  "world_later =
     world_ok\<lparr>argv := [''finetune_model.py'', ''Models/other''],
              existing_paths := [''Models/other''],
              now := (now world_ok)\<lparr>microsecond := 750000\<rparr>\<rparr>"

text \<open>The version directory holds one corpus file without records.\<close>

definition world_empty_corpus :: world where
  "world_empty_corpus =
     world_ok\<lparr>listdir := (\<lambda>d. if d = ''/app/training data/v1'' then [''empty.jsonl'']
                                else [])\<rparr>"

text \<open>The same directory, with a dataset library that rejects a corpus without records.\<close>

definition world_empty_rejected :: world where
  "world_empty_rejected =
     world_empty_corpus\<lparr>datasets_load :=
        (\<lambda>fs. Inl (Exception ''DatasetGenerationError''
                      ''An error occurred while generating the dataset''))\<rparr>"

text \<open>An instruction that quotes a section header, without input.\<close>

definition example_quoting :: example where
  "example_quoting =
     [(''instruction'', PyStr ''Fill the ### Input: section''), (''output'', PyStr ''ok'')]"


text \<open>
  What \<open>setup_model_and_tokenizer\<close> returns in \<open>world_ok\<close>: the adapted model, and
  the tokenizer with the end-of-sequence token as pad token.
\<close>

definition tokenizer_ok :: tokenizer where
  "tokenizer_ok = \<lparr>encode = map of_char, pad_token = Some 0, eos_token = Some 0,
                    pad_left = False, model_max_length = 32768\<rparr>"

definition model_ok :: model where
  "model_ok = PeftModel (BaseModel ''Models/base'')
                \<lparr>lora_r = FT_lora_r, lora_alpha = FT_lora_alpha,
                 target_modules = FT_target_modules, lora_dropout = FT_lora_dropout,
                 bias = ''none'', task_type = ''CAUSAL_LM''\<rparr>"

subsection \<open>Headers of a formatted prompt\<close>

lemma prefix_before_foreign_char:
  assumes "c \<notin> set h"
  shows "prefix h (a @ c # b) \<longleftrightarrow> prefix h a"
proof
  assume "prefix h (a @ c # b)"
  then consider "prefix h a" | us where "h = a @ us" "prefix us (c # b)"
    by (auto simp: prefix_append)
  then show "prefix h a"
  proof cases
    case 1
    then show ?thesis .
  next
    case 2
    with assms have "us = []"
      by (cases us) auto
    with 2 show ?thesis by simp
  qed
next
  assume "prefix h a"
  then show "prefix h (a @ c # b)"
    by (simp add: prefix_prefix)
qed

lemma header_at_before_newline:
  "header_at (a @ CHR ''\<newline>'' # b) = header_at a"
  by (simp add: header_at_def prefix_before_foreign_char)

lemma header_at_newline: "header_at (CHR ''\<newline>'' # b) = None"
  by (simp add: header_at_def)

lemma section_headers_newline:
  "section_headers (a @ CHR ''\<newline>'' # b) = section_headers a @ section_headers b"
proof (induction a)
  case Nil
  show ?case by (simp add: header_at_newline)
next
  case (Cons x a)
  have "header_at (x # a @ CHR ''\<newline>'' # b) = header_at (x # a)"
    using header_at_before_newline [of "x # a" b] by simp
  with Cons show ?case by simp
qed

lemma section_headers_Instruction:
  "section_headers ''### Instruction:'' = [HInstruction]"
  by (simp add: header_at_def)

lemma section_headers_Input: "section_headers ''### Input:'' = [HInput]"
  by (simp add: header_at_def)

lemma section_headers_Response: "section_headers ''### Response:'' = [HResponse]"
  by (simp add: header_at_def)

lemma section_headers_three:
  "section_headers (''### Instruction:\<newline>'' @ i @ ''\<newline>\<newline>### Input:\<newline>'' @ n
       @ ''\<newline>\<newline>### Response:\<newline>'' @ r)
   = [HInstruction] @ section_headers i @ [HInput] @ section_headers n
       @ [HResponse] @ section_headers r"
proof -
  have "section_headers (''### Instruction:'' @ CHR ''\<newline>'' # (i @ CHR ''\<newline>'' #
          ([] @ CHR ''\<newline>'' # (''### Input:'' @ CHR ''\<newline>'' # (n @ CHR ''\<newline>'' #
          ([] @ CHR ''\<newline>'' # (''### Response:'' @ CHR ''\<newline>'' # r)))))))
        = [HInstruction] @ section_headers i @ [HInput] @ section_headers n
          @ [HResponse] @ section_headers r"
    unfolding section_headers_newline section_headers_Instruction section_headers_Input
      section_headers_Response
    by simp
  then show ?thesis by simp
qed

lemma section_headers_two:
  "section_headers (''### Instruction:\<newline>'' @ i @ ''\<newline>\<newline>### Response:\<newline>'' @ r)
   = [HInstruction] @ section_headers i @ [HResponse] @ section_headers r"
proof -
  have "section_headers (''### Instruction:'' @ CHR ''\<newline>'' # (i @ CHR ''\<newline>'' #
          ([] @ CHR ''\<newline>'' # (''### Response:'' @ CHR ''\<newline>'' # r))))
        = [HInstruction] @ section_headers i @ [HResponse] @ section_headers r"
    unfolding section_headers_newline section_headers_Instruction section_headers_Response
    by simp
  then show ?thesis by simp
qed

subsection \<open>Running the pipeline\<close>

lemmas io_defs = returns_def raise_def emit_def bind_io_def then_io_def print_def
  print_header_def print_info_def print_success_def print_error_def print_warning_def
  getitem_def

lemmas trace_defs = is_crash_report_def is_prompt_def is_invoke_def is_license_copy_def
  is_missing_license_log_def

lemmas world_defs = world_ok_def world_declined_def world_no_data_def world_later_def
  world_licensed_def world_doc_fails_def world_empty_corpus_def world_empty_rejected_def

lemmas eval_defs = os_path_exists_def path_exists_def glob_jsonl_def path_join_def
  zero_pad_def str_nat.simps strftime_file_def crash_report_name_def missing_license_name_def

lemma names_file_path_join: "names_file name (path_join d name)"
proof (cases "d = []")
  case True
  then show ?thesis by (simp add: names_file_def path_join_def)
next
  case False
  then obtain xs x where d: "d = xs @ [x]"
    by (metis rev_exhaust)
  show ?thesis
  proof (cases "x = CHR ''/''")
    case True
    with d have "path_join d name = xs @ CHR ''/'' # name"
      by (simp add: path_join_def)
    then show ?thesis by (simp add: names_file_def suffix_def)
  next
    case False
    with d have "path_join d name = d @ CHR ''/'' # name"
      by (simp add: path_join_def)
    then show ?thesis by (simp add: names_file_def suffix_def)
  qed
qed

text \<open>
  With the dict of the source, a run that passes the two argument checks ends in
  \<open>check_system\<close>, at the read of \<open>documentation_dir\<close>.
\<close>

lemma main_body_check_system_raises:
  assumes "length (argv w) = 2" and "os_path_exists w (argv w ! 1)"
  shows "main_body (OUTPUT_CONFIG sd) w =
     (Inl (KeyError ''documentation_dir''),
      [Print (''\<newline>'' @ rule80), Print (''  Fine-Tuning Script - '' @ FT_method),
       Print (rule80 @ ''\<newline>''), Print (''[INFO] '' @ strftime_text (now w)),
       Print (''\<newline>'' @ rule80), Print ''  System Check'', Print (rule80 @ ''\<newline>''),
       Print (''[INFO] GPU: '' @ SYS_gpu @ '', '' @ SYS_vram),
       Print (''[INFO] CUDA Available: '' @ py_bool (cuda_available w))]
      @ (if cuda_available w then [Print (''[INFO] CUDA Device: '' @ cuda_device_name w)] else [])
      @ [MakeDirs (path_join sd ''Models'')])"
  using assms
  by (simp add: main_body_def check_system_def io_defs OUTPUT_CONFIG_def)

text \<open>The three \<open>except\<close> paths and the normal return of \<open>main\<close>.\<close>

lemma main_with_Exception:
  assumes "main_body cfg w = (Inl (Exception t m), evs)"
      and "map_of cfg ''crash_reports_dir'' = Some d"
  shows "main_with cfg w =
     (Exited 1, evs @
       [Print (''[ERROR] Failed: '' @ m),
        MakeDirs d,
        WriteFile (path_join d (crash_report_name (now w)))
          (crash_report_text w (Exception t m)
             (''Model: '' @ (if length (argv w) > 1 then argv w ! 1 else ''unknown''))),
        Print (''[ERROR] Crash report saved: '' @ path_join d (crash_report_name (now w)))])"
  using assms
  by (simp add: main_with_def write_crash_report_def io_defs Let_def)

lemma main_with_SystemExit:
  "main_body cfg w = (Inl (SystemExit n), evs) \<Longrightarrow> main_with cfg w = (Exited n, evs)"
  by (simp add: main_with_def)

lemma main_with_KeyboardInterrupt:
  "main_body cfg w = (Inl KeyboardInterrupt, evs) \<Longrightarrow>
   main_with cfg w = (Exited 130, evs @ [Print ''[WARNING] \<newline>Interrupted by user''])"
  by (simp add: main_with_def)


lemma OUTPUT_CONFIG_crash_reports_dir:
  "map_of (OUTPUT_CONFIG sd) ''crash_reports_dir'' = Some (path_join sd ''logs'')"
  by (simp add: OUTPUT_CONFIG_def)

lemma pair_of_fst: "fst p = a \<Longrightarrow> p = (a, snd p)"
  by (cases p) simp

subsection \<open>C1: the missing key \<open>documentation_dir\<close>\<close>

text \<open>
  C1. For every invocation with one argument that names an existing base-model path,
  \<open>check_system\<close> raises \<open>KeyError('documentation_dir')\<close> (and so would
  \<open>generate_documentation\<close>); the handler of \<open>main\<close> writes one crash report and
  the process exits with status 1. The run shows no prompt and calls no library, so
  it loads no dataset and reaches no later stage, and it never completes.
\<close>

theorem check_system_KeyError_aborts_run:
  assumes "length (argv w) = 2" and "os_path_exists w (argv w ! 1)"
  shows "fst (check_system (OUTPUT_CONFIG (script_dir w)) w) = Inl (KeyError ''documentation_dir'')
       \<and> fst (generate_documentation (OUTPUT_CONFIG (script_dir w)) w mn od op v n)
           = Inl (KeyError ''documentation_dir'')
       \<and> fst (main w) = Exited 1
       \<and> fst (main w) \<noteq> Completed
       \<and> WriteFile (path_join (path_join (script_dir w) ''logs'') (crash_report_name (now w)))
            (crash_report_text w (KeyError ''documentation_dir'') (''Model: '' @ argv w ! 1))
           \<in> set (snd (main w))
       \<and> length (filter (is_crash_report w) (snd (main w))) = 1
       \<and> filter is_prompt (snd (main w)) = []
       \<and> filter is_invoke (snd (main w)) = []"
proof -
  let ?cfg = "OUTPUT_CONFIG (script_dir w)"
  let ?logs = "path_join (script_dir w) ''logs''"
  have cs: "fst (check_system ?cfg w) = Inl (KeyError ''documentation_dir'')"
    by (simp add: check_system_def io_defs OUTPUT_CONFIG_def)
  have gd: "fst (generate_documentation ?cfg w mn od op v n) = Inl (KeyError ''documentation_dir'')"
    by (simp add: generate_documentation_def io_defs OUTPUT_CONFIG_def Let_def)
  note body = main_body_check_system_raises [OF assms, of "script_dir w"]
  have m: "main w =
     (Exited 1, snd (main_body ?cfg w) @
       [Print (''[ERROR] Failed: '' @ [CHR 0x27] @ ''documentation_dir'' @ [CHR 0x27]),
        MakeDirs ?logs,
        WriteFile (path_join ?logs (crash_report_name (now w)))
            (crash_report_text w (KeyError ''documentation_dir'') (''Model: '' @ argv w ! 1)),
        Print (''[ERROR] Crash report saved: '' @ path_join ?logs (crash_report_name (now w)))])"
    unfolding main_def
    using main_with_Exception [OF body [unfolded KeyError_def] OUTPUT_CONFIG_crash_reports_dir]
      assms(1)
    by (simp add: body KeyError_def)
  have "length (filter (is_crash_report w) (snd (main w))) = 1"
    by (simp add: m body trace_defs names_file_path_join)
  moreover have "filter is_prompt (snd (main w)) = []"
    by (simp add: m body trace_defs)
  moreover have "filter is_invoke (snd (main w)) = []"
    by (simp add: m body trace_defs)
  ultimately show ?thesis
    using cs gd by (simp add: m)
qed

text \<open>A run without accelerator whose operator would decline.\<close>

theorem check_system_KeyError_aborts_run_witness:
  "length (argv world_declined) = 2 \<and> os_path_exists world_declined (argv world_declined ! 1)
   \<and> fst (main world_declined) = Exited 1
   \<and> length (filter (is_crash_report world_declined) (snd (main world_declined))) = 1
   \<and> filter is_prompt (snd (main world_declined)) = []
   \<and> filter is_invoke (snd (main world_declined)) = []"
  using check_system_KeyError_aborts_run [of world_declined]
  by (simp add: world_declined_def world_ok_def os_path_exists_def path_exists_def)

subsection \<open>C4: pre-flight failures\<close>

lemma valid_args_no_data:
  "length (argv world_no_data) = 2 \<and> os_path_exists world_no_data (argv world_no_data ! 1)"
  by (simp add: world_defs os_path_exists_def path_exists_def)

lemma run_no_data:
  "main world_no_data =
     (Exited 1,
      [Print (''\<newline>'' @ rule80), Print (''  Fine-Tuning Script - '' @ FT_method),
       Print (rule80 @ ''\<newline>''), Print (''[INFO] '' @ strftime_text (now world_no_data)),
       Print (''\<newline>'' @ rule80), Print ''  System Check'', Print (rule80 @ ''\<newline>''),
       Print (''[INFO] GPU: '' @ SYS_gpu @ '', '' @ SYS_vram),
       Print ''[INFO] CUDA Available: True'',
       Print ''[INFO] CUDA Device: NVIDIA RTX 4070'',
       MakeDirs ''/app/Models'',
       Print (''[ERROR] Failed: '' @ [CHR 0x27] @ ''documentation_dir'' @ [CHR 0x27]),
       MakeDirs ''/app/logs'',
       WriteFile ''/app/logs/crash_report_finetune_model_2025-01-15_10-30-07.log''
         (crash_report_text world_no_data (KeyError ''documentation_dir'') ''Model: Models/base''),
       Print ''[ERROR] Crash report saved: /app/logs/crash_report_finetune_model_2025-01-15_10-30-07.log''])"
  by (simp add: main_def main_with_def main_body_def check_system_def write_crash_report_def
        io_defs OUTPUT_CONFIG_def KeyError_def Let_def world_defs eval_defs py_bool_def)

lemma body_documented_no_data:
  "main_body (OUTPUT_CONFIG_documented ''/app'') world_no_data =
     (Inl (SystemExit 1),
      [Print (''\<newline>'' @ rule80), Print (''  Fine-Tuning Script - '' @ FT_method),
       Print (rule80 @ ''\<newline>''), Print (''[INFO] '' @ strftime_text (now world_no_data)),
       Print (''\<newline>'' @ rule80), Print ''  System Check'', Print (rule80 @ ''\<newline>''),
       Print (''[INFO] GPU: '' @ SYS_gpu @ '', '' @ SYS_vram),
       Print ''[INFO] CUDA Available: True'',
       Print ''[INFO] CUDA Device: NVIDIA RTX 4070'',
       MakeDirs ''/app/Models'', MakeDirs ''/app/Documentation'',
       Print ''[SUCCESS] Output directories ready'',
       Print (''\<newline>'' @ rule80), Print ''  Loading Training Data - v1'',
       Print (rule80 @ ''\<newline>''),
       Print ''[ERROR] Training data not found: /app/training data/v1''])"
  by (simp add: main_body_def check_system_def load_training_data_def
        io_defs OUTPUT_CONFIG_documented_def OUTPUT_CONFIG_def Let_def world_defs eval_defs
        py_bool_def FT_version_def)

lemma report_name_no_data:
  "names_file (crash_report_name (now world_no_data))
     ''/app/logs/crash_report_finetune_model_2025-01-15_10-30-07.log''"
  using names_file_path_join [of "crash_report_name (now world_no_data)" "''/app/logs''"]
  by (simp add: world_defs eval_defs)

text \<open>
  C4 at a run with an existing base model and no version directory. The claim asks for
  exit status 1, no artifact directory and no crash report. The run of the source ends
  in \<open>check_system\<close> before the version directory is looked at, and a crash report
  is written. With \<open>documentation_dir\<close> in the dict, \<open>load_training_data\<close> ends the
  run with \<open>sys.exit(1)\<close> and nothing is written.
\<close>

theorem missing_version_directory_run:
  "length (argv world_no_data) = 2
   \<and> os_path_exists world_no_data (argv world_no_data ! 1)
   \<and> \<not> path_exists world_no_data ''/app/training data/v1''
   \<and> fst (main world_no_data) = Exited 1
   \<and> filter (is_crash_report world_no_data) (snd (main world_no_data))
       = [WriteFile ''/app/logs/crash_report_finetune_model_2025-01-15_10-30-07.log''
            (crash_report_text world_no_data (KeyError ''documentation_dir'')
               ''Model: Models/base'')]
   \<and> filter (creates_under ''/app/Models/base_ft_v1'') (snd (main world_no_data)) = []
   \<and> main_with (OUTPUT_CONFIG_documented ''/app'') world_no_data
       = (Exited 1, snd (main_body (OUTPUT_CONFIG_documented ''/app'') world_no_data))
   \<and> filter (is_crash_report world_no_data)
        (snd (main_with (OUTPUT_CONFIG_documented ''/app'') world_no_data)) = []"
proof -
  have a: "\<not> path_exists world_no_data ''/app/training data/v1''"
    by (simp add: world_defs path_exists_def)
  have b: "fst (main world_no_data) = Exited 1"
    by (simp add: run_no_data)
  have c: "filter (is_crash_report world_no_data) (snd (main world_no_data))
       = [WriteFile ''/app/logs/crash_report_finetune_model_2025-01-15_10-30-07.log''
            (crash_report_text world_no_data (KeyError ''documentation_dir'')
               ''Model: Models/base'')]"
    unfolding run_no_data by (simp add: trace_defs report_name_no_data)
  have d: "filter (creates_under ''/app/Models/base_ft_v1'') (snd (main world_no_data)) = []"
    unfolding run_no_data by (simp add: creates_under_def)
  have e: "main_with (OUTPUT_CONFIG_documented ''/app'') world_no_data
       = (Exited 1, snd (main_body (OUTPUT_CONFIG_documented ''/app'') world_no_data))"
    by (simp add: main_with_SystemExit [OF body_documented_no_data] body_documented_no_data)
  have f: "filter (is_crash_report world_no_data)
        (snd (main_with (OUTPUT_CONFIG_documented ''/app'') world_no_data)) = []"
    by (simp add: main_with_SystemExit [OF body_documented_no_data] trace_defs)
  from valid_args_no_data a b c d e f show ?thesis
    by (intro conjI) (erule conjunct1 conjunct2 | assumption)+
qed


subsection \<open>C8: the prompt without accelerator\<close>

lemma valid_args_declined:
  "length (argv world_declined) = 2 \<and> os_path_exists world_declined (argv world_declined ! 1)"
  by (simp add: world_defs os_path_exists_def path_exists_def)

lemma run_declined:
  "main world_declined =
     (Exited 1,
      [Print (''\<newline>'' @ rule80), Print (''  Fine-Tuning Script - '' @ FT_method),
       Print (rule80 @ ''\<newline>''), Print (''[INFO] '' @ strftime_text (now world_declined)),
       Print (''\<newline>'' @ rule80), Print ''  System Check'', Print (rule80 @ ''\<newline>''),
       Print (''[INFO] GPU: '' @ SYS_gpu @ '', '' @ SYS_vram),
       Print ''[INFO] CUDA Available: False'',
       MakeDirs ''/app/Models'',
       Print (''[ERROR] Failed: '' @ [CHR 0x27] @ ''documentation_dir'' @ [CHR 0x27]),
       MakeDirs ''/app/logs'',
       WriteFile ''/app/logs/crash_report_finetune_model_2025-01-15_10-30-07.log''
         (crash_report_text world_declined (KeyError ''documentation_dir'') ''Model: Models/base''),
       Print ''[ERROR] Crash report saved: /app/logs/crash_report_finetune_model_2025-01-15_10-30-07.log''])"
  by (simp add: main_def main_with_def main_body_def check_system_def write_crash_report_def
        io_defs OUTPUT_CONFIG_def KeyError_def Let_def world_defs eval_defs py_bool_def)

lemma body_documented_declined:
  "main_body (OUTPUT_CONFIG_documented ''/app'') world_declined =
     (Inl (SystemExit 0),
      [Print (''\<newline>'' @ rule80), Print (''  Fine-Tuning Script - '' @ FT_method),
       Print (rule80 @ ''\<newline>''), Print (''[INFO] '' @ strftime_text (now world_declined)),
       Print (''\<newline>'' @ rule80), Print ''  System Check'', Print (rule80 @ ''\<newline>''),
       Print (''[INFO] GPU: '' @ SYS_gpu @ '', '' @ SYS_vram),
       Print ''[INFO] CUDA Available: False'',
       MakeDirs ''/app/Models'', MakeDirs ''/app/Documentation'',
       Print ''[SUCCESS] Output directories ready'',
       Print ''[WARNING] CUDA not available. Fine-tuning will be very slow on CPU.'',
       Input ''Continue anyway? (y/n): ''])"
  by (simp add: main_body_def check_system_def input_def lower_def ascii_lower_def
        io_defs OUTPUT_CONFIG_documented_def OUTPUT_CONFIG_def Let_def world_defs eval_defs
        py_bool_def)

text \<open>
  C8 at a run without accelerator whose operator answers \<open>n\<close>. The claim asks for the
  prompt and exit status 0. The run of the source ends in \<open>check_system\<close>, before the
  prompt, with a crash report and status 1. With \<open>documentation_dir\<close> in the dict the
  prompt is shown and the run exits with status 0 without calling a library.
\<close>

theorem declined_prompt_run:
  "length (argv world_declined) = 2
   \<and> os_path_exists world_declined (argv world_declined ! 1)
   \<and> \<not> cuda_available world_declined
   \<and> lower (stdin_line world_declined) \<noteq> ''y''
   \<and> fst (main world_declined) = Exited 1
   \<and> filter is_prompt (snd (main world_declined)) = []
   \<and> length (filter (is_crash_report world_declined) (snd (main world_declined))) = 1
   \<and> fst (main_with (OUTPUT_CONFIG_documented ''/app'') world_declined) = Exited 0
   \<and> filter is_prompt (snd (main_with (OUTPUT_CONFIG_documented ''/app'') world_declined))
       = [Input ''Continue anyway? (y/n): '']
   \<and> filter is_invoke (snd (main_with (OUTPUT_CONFIG_documented ''/app'') world_declined)) = []"
proof -
  have a: "\<not> cuda_available world_declined"
    by (simp add: world_defs)
  have b: "lower (stdin_line world_declined) \<noteq> ''y''"
    by (simp add: world_defs lower_def ascii_lower_def)
  have c: "fst (main world_declined) = Exited 1"
    by (simp add: run_declined)
  have d: "filter is_prompt (snd (main world_declined)) = []"
    unfolding run_declined by (simp add: trace_defs)
  have r: "names_file (crash_report_name (now world_declined))
     ''/app/logs/crash_report_finetune_model_2025-01-15_10-30-07.log''"
    using names_file_path_join [of "crash_report_name (now world_declined)" "''/app/logs''"]
    by (simp add: world_defs eval_defs)
  have e: "length (filter (is_crash_report world_declined) (snd (main world_declined))) = 1"
    unfolding run_declined by (simp add: trace_defs r)
  note m = main_with_SystemExit [OF body_documented_declined]
  have f: "fst (main_with (OUTPUT_CONFIG_documented ''/app'') world_declined) = Exited 0"
    by (simp add: m)
  have g: "filter is_prompt (snd (main_with (OUTPUT_CONFIG_documented ''/app'') world_declined))
       = [Input ''Continue anyway? (y/n): '']"
    by (simp add: m trace_defs)
  have h: "filter is_invoke (snd (main_with (OUTPUT_CONFIG_documented ''/app'') world_declined)) = []"
    by (simp add: m trace_defs)
  from valid_args_declined a b c d e f g h show ?thesis
    by (intro conjI) (erule conjunct1 conjunct2 | assumption)+
qed

subsection \<open>C2: section headers of the prompt\<close>

text \<open>
  C2, as amended. The formatter inserts the three fields into a fixed template and does
  not escape them. When none of the field texts contains a section header itself, the
  prompt has exactly the headers \<open>### Instruction:\<close>, \<open>### Input:\<close>,
  \<open>### Response:\<close> in this order if the input field is present and not empty, and
  exactly \<open>### Instruction:\<close>, \<open>### Response:\<close> if it is absent, \<open>None\<close> or
  empty.
\<close>

theorem format_instruction_headers:
  assumes "section_headers (py_str (dict_get ex ''instruction'' (PyStr []))) = []"
      and "section_headers (py_str (dict_get ex ''input'' (PyStr []))) = []"
      and "section_headers (py_str (dict_get ex ''output'' (PyStr []))) = []"
  shows "(truthy (dict_get ex ''input'' (PyStr [])) \<longrightarrow>
            section_headers (format_instruction ex) = [HInstruction, HInput, HResponse])
       \<and> (\<not> truthy (dict_get ex ''input'' (PyStr [])) \<longrightarrow>
            section_headers (format_instruction ex) = [HInstruction, HResponse])"
proof (intro conjI impI)
  let ?i = "py_str (dict_get ex ''instruction'' (PyStr []))"
  let ?n = "py_str (dict_get ex ''input'' (PyStr []))"
  let ?r = "py_str (dict_get ex ''output'' (PyStr []))"
  {
    assume "truthy (dict_get ex ''input'' (PyStr []))"
    then have "format_instruction ex =
        ''### Instruction:\<newline>'' @ ?i @ ''\<newline>\<newline>### Input:\<newline>'' @ ?n
        @ ''\<newline>\<newline>### Response:\<newline>'' @ ?r"
      by (simp add: format_instruction_def Let_def)
    then have "section_headers (format_instruction ex) =
        [HInstruction] @ section_headers ?i @ [HInput] @ section_headers ?n
        @ [HResponse] @ section_headers ?r"
      by (simp only: section_headers_three)
    with assms show "section_headers (format_instruction ex) = [HInstruction, HInput, HResponse]"
      by simp
  }
  {
    assume "\<not> truthy (dict_get ex ''input'' (PyStr []))"
    then have "format_instruction ex =
        ''### Instruction:\<newline>'' @ ?i @ ''\<newline>\<newline>### Response:\<newline>'' @ ?r"
      by (simp add: format_instruction_def Let_def)
    then have "section_headers (format_instruction ex) =
        [HInstruction] @ section_headers ?i @ [HResponse] @ section_headers ?r"
      by (simp only: section_headers_two)
    with assms show "section_headers (format_instruction ex) = [HInstruction, HResponse]"
      by simp
  }
qed

text \<open>A record with input and a record whose input is \<open>None\<close>.\<close>

theorem format_instruction_headers_witness:
  "section_headers (format_instruction example_a) = [HInstruction, HInput, HResponse]
   \<and> section_headers (format_instruction example_b) = [HInstruction, HResponse]"
  using format_instruction_headers [of example_a] format_instruction_headers [of example_b]
  by (simp add: example_a_def example_b_def dict_get_def header_at_def)

text \<open>
  A record without input whose instruction quotes \<open>### Input:\<close>: the prompt has three
  headers, not two.
\<close>

theorem format_instruction_headers_counterexample:
  "map_of example_quoting ''input'' = None
   \<and> \<not> truthy (dict_get example_quoting ''input'' (PyStr []))
   \<and> section_headers (format_instruction example_quoting) = [HInstruction, HInput, HResponse]
   \<and> section_headers (format_instruction example_quoting) \<noteq> [HInstruction, HResponse]"
  by (simp add: example_quoting_def format_instruction_def dict_get_def header_at_def)

subsection \<open>When a statement sequence returns\<close>

lemma bind_io_Inr_iff:
  "bind_io m f = (Inr b, evs) \<longleftrightarrow>
   (\<exists>a e1 e2. m = (Inr a, e1) \<and> f a = (Inr b, e2) \<and> evs = e1 @ e2)"
  by (cases m) (auto simp: bind_io_def split: sum.splits prod.splits)

lemma then_io_Inr_iff:
  "then_io m k = (Inr b, evs) \<longleftrightarrow>
   (\<exists>a e1 e2. m = (Inr a, e1) \<and> k = (Inr b, e2) \<and> evs = e1 @ e2)"
  by (simp add: then_io_def bind_io_Inr_iff)

lemma returns_Inr_iff: "returns a = (Inr b, evs) \<longleftrightarrow> a = b \<and> evs = []"
  by (auto simp: returns_def)

lemma raise_not_Inr: "raise e \<noteq> (Inr b, evs)"
  by (simp add: raise_def)

lemma emit_Inr_iff: "emit ev = (Inr u, evs) \<longleftrightarrow> evs = [ev]"
  by (auto simp: emit_def)

lemma print_Inr_iff: "print s = (Inr u, evs) \<longleftrightarrow> evs = [Print s]"
  by (auto simp: print_def emit_def)

lemma print_header_Inr_iff:
  "print_header s = (Inr u, evs) \<longleftrightarrow>
   evs = [Print (''\<newline>'' @ rule80), Print (''  '' @ s), Print (rule80 @ ''\<newline>'')]"
  by (auto simp: print_header_def then_io_Inr_iff print_Inr_iff)

lemma call_Inr_iff:
  "call w name args = (Inr u, evs) \<longleftrightarrow> fault w name = None \<and> evs = [Invoke name args]"
  by (cases "fault w name") (auto simp: call_def then_io_Inr_iff emit_Inr_iff returns_Inr_iff raise_def)

lemma write_file_Inr_iff:
  "write_file w name p c = (Inr u, evs) \<longleftrightarrow> fault w name = None \<and> evs = [WriteFile p c]"
  by (cases "fault w name") (auto simp: write_file_def emit_Inr_iff raise_def)

lemma getitem_Inr_iff:
  "getitem cfg k = (Inr v, evs) \<longleftrightarrow> map_of cfg k = Some v \<and> evs = []"
  by (cases "map_of cfg k") (auto simp: getitem_def returns_def raise_def)

lemmas Inr_iffs = bind_io_Inr_iff then_io_Inr_iff returns_Inr_iff raise_not_Inr emit_Inr_iff
  print_Inr_iff print_header_Inr_iff call_Inr_iff write_file_Inr_iff getitem_Inr_iff

subsection \<open>C9 and C10: the dataset loader\<close>

lemma load_training_data_fst:
  assumes "map_of cfg ''training_data_dir'' = Some t"
  shows "fst (load_training_data cfg w v) =
     (if \<not> path_exists w (path_join t v) \<or> glob_jsonl w (path_join t v) = []
      then Inl (SystemExit 1)
      else datasets_load w (glob_jsonl w (path_join t v)))"
  using assms
  by (simp add: load_training_data_def load_dataset_def io_defs Let_def split: sum.splits)

lemma load_training_data_invokes:
  assumes "map_of cfg ''training_data_dir'' = Some t"
  shows "filter is_invoke (snd (load_training_data cfg w v)) =
     (if \<not> path_exists w (path_join t v) \<or> glob_jsonl w (path_join t v) = []
      then []
      else [Invoke ''load_dataset'' (glob_jsonl w (path_join t v))])"
  using assms
  by (simp add: load_training_data_def load_dataset_def io_defs Let_def is_invoke_def
      filter_map comp_def split: sum.splits)

text \<open>
  C9, as amended. For every version directory that exists and has one or more entries
  ending in \<open>.jsonl\<close>, the loader hands exactly these files to \<open>load_dataset\<close>, in
  the order in which the directory enumeration yields them; it does not sort. With a
  dataset library that reads the data files in the order given, the result is the
  concatenation of the files' records in enumeration order.
\<close>

theorem load_training_data_enumeration_order:
  assumes "map_of cfg ''training_data_dir'' = Some t"
      and "path_exists w (path_join t v)"
      and "glob_jsonl w (path_join t v) \<noteq> []"
  shows "filter is_invoke (snd (load_training_data cfg w v))
           = [Invoke ''load_dataset''
                (map (path_join (path_join t v))
                   (filter (suffix ''.jsonl'') (listdir w (path_join t v))))]
       \<and> (datasets_load w = concat_loader contents \<longrightarrow>
            fst (load_training_data cfg w v)
              = Inr (concat (map (\<lambda>name. contents (path_join (path_join t v) name))
                          (filter (suffix ''.jsonl'') (listdir w (path_join t v))))))"
  using assms load_training_data_fst [OF assms(1), of w v]
    load_training_data_invokes [OF assms(1), of w v]
  by (auto simp: glob_jsonl_def concat_loader_def comp_def)

lemma glob_ok:
  "glob_jsonl world_ok ''/app/training data/v1''
   = [''/app/training data/v1/b.jsonl'', ''/app/training data/v1/a.jsonl'']"
  by (simp add: world_defs glob_jsonl_def path_join_def suffix_to_prefix)

lemma data_dir_ok:
  "map_of (OUTPUT_CONFIG ''/app'') ''training_data_dir'' = Some ''/app/training data''
   \<and> path_join ''/app/training data'' ''v1'' = ''/app/training data/v1''
   \<and> path_exists world_ok ''/app/training data/v1''"
  by (simp add: OUTPUT_CONFIG_def path_join_def path_exists_def world_defs)

theorem load_training_data_enumeration_order_witness:
  "map_of (OUTPUT_CONFIG ''/app'') ''training_data_dir'' = Some ''/app/training data''
   \<and> path_exists world_ok (path_join ''/app/training data'' ''v1'')
   \<and> glob_jsonl world_ok (path_join ''/app/training data'' ''v1'') \<noteq> []
   \<and> datasets_load world_ok = concat_loader corpus
   \<and> filter is_invoke (snd (load_training_data (OUTPUT_CONFIG ''/app'') world_ok ''v1''))
       = [Invoke ''load_dataset''
            [''/app/training data/v1/b.jsonl'', ''/app/training data/v1/a.jsonl'']]
   \<and> fst (load_training_data (OUTPUT_CONFIG ''/app'') world_ok ''v1'')
       = Inr [example_b, example_a]"
proof -
  have l: "datasets_load world_ok = concat_loader corpus"
    by (simp add: world_defs)
  have g: "glob_jsonl world_ok (path_join ''/app/training data'' ''v1'') \<noteq> []"
    using glob_ok data_dir_ok by simp
  have f: "filter (suffix ''.jsonl'') (listdir world_ok ''/app/training data/v1'')
           = [''b.jsonl'', ''a.jsonl'']"
    by (simp add: world_defs suffix_to_prefix)
  show ?thesis
    using load_training_data_enumeration_order [of "OUTPUT_CONFIG ''/app''" "''/app/training data''"
        world_ok "''v1''" corpus] data_dir_ok g l
    by (simp add: f) (simp add: path_join_def corpus_def)
qed

text \<open>
  The directory is enumerated as \<open>b.jsonl\<close>, \<open>a.jsonl\<close>: the records of \<open>b.jsonl\<close>
  come first, which is not the lexical order of the file names.
\<close>

theorem load_training_data_enumeration_order_counterexample:
  "listdir world_ok ''/app/training data/v1'' = [''b.jsonl'', ''notes.txt'', ''a.jsonl'']
   \<and> fst (load_training_data (OUTPUT_CONFIG ''/app'') world_ok ''v1'')
       = Inr (corpus ''/app/training data/v1/b.jsonl'' @ corpus ''/app/training data/v1/a.jsonl'')
   \<and> fst (load_training_data (OUTPUT_CONFIG ''/app'') world_ok ''v1'')
       \<noteq> Inr (corpus ''/app/training data/v1/a.jsonl'' @ corpus ''/app/training data/v1/b.jsonl'')"
proof -
  have r: "fst (load_training_data (OUTPUT_CONFIG ''/app'') world_ok ''v1'')
       = Inr (corpus ''/app/training data/v1/b.jsonl'' @ corpus ''/app/training data/v1/a.jsonl'')"
    using load_training_data_fst [of "OUTPUT_CONFIG ''/app''" "''/app/training data''" world_ok "''v1''"]
      data_dir_ok glob_ok
    by (simp add: concat_loader_def) (simp add: world_defs concat_loader_def)
  have d: "corpus ''/app/training data/v1/b.jsonl'' @ corpus ''/app/training data/v1/a.jsonl''
      \<noteq> corpus ''/app/training data/v1/a.jsonl'' @ corpus ''/app/training data/v1/b.jsonl''"
    by (simp add: corpus_def example_a_def example_b_def)
  have l: "listdir world_ok ''/app/training data/v1'' = [''b.jsonl'', ''notes.txt'', ''a.jsonl'']"
    by (simp add: world_defs)
  from l r d show ?thesis by simp
qed

text \<open>
  C10, as amended. The loader ends the run with \<open>sys.exit(1)\<close> exactly when the version
  directory is absent or has no entry ending in \<open>.jsonl\<close>. Otherwise it returns what
  \<open>load_dataset\<close> returns for the enumerated files, or raises what it raises; the
  number of records is not checked.
\<close>

theorem load_training_data_result:
  assumes "map_of cfg ''training_data_dir'' = Some t"
  shows "fst (load_training_data cfg w v) =
           (if \<not> path_exists w (path_join t v) \<or> glob_jsonl w (path_join t v) = []
            then Inl (SystemExit 1)
            else datasets_load w (glob_jsonl w (path_join t v)))
       \<and> (fst (load_training_data cfg w v) = Inr ds \<longleftrightarrow>
            path_exists w (path_join t v) \<and> glob_jsonl w (path_join t v) \<noteq> []
          \<and> datasets_load w (glob_jsonl w (path_join t v)) = Inr ds)"
  using load_training_data_fst [OF assms, of w v] by auto

lemma glob_empty_corpus:
  "glob_jsonl world_empty_corpus ''/app/training data/v1'' = [''/app/training data/v1/empty.jsonl'']"
  by (simp add: world_defs glob_jsonl_def path_join_def suffix_to_prefix)

lemma data_dir_empty_corpus:
  "path_exists world_empty_corpus ''/app/training data/v1''"
  by (simp add: path_exists_def world_defs)

theorem load_training_data_result_witness:
  "map_of (OUTPUT_CONFIG ''/app'') ''training_data_dir'' = Some ''/app/training data''
   \<and> fst (load_training_data (OUTPUT_CONFIG ''/app'') world_no_data ''v1'') = Inl (SystemExit 1)
   \<and> fst (load_training_data (OUTPUT_CONFIG ''/app'') world_ok ''v1'') = Inr [example_b, example_a]"
proof -
  have n: "\<not> path_exists world_no_data ''/app/training data/v1''"
    by (simp add: path_exists_def world_defs)
  have k: "datasets_load world_ok [''/app/training data/v1/b.jsonl'', ''/app/training data/v1/a.jsonl'']
     = Inr [example_b, example_a]"
    by (simp add: world_defs concat_loader_def corpus_def)
  show ?thesis
    using load_training_data_result [of "OUTPUT_CONFIG ''/app''" "''/app/training data''" world_no_data "''v1''"]
      load_training_data_result [of "OUTPUT_CONFIG ''/app''" "''/app/training data''" world_ok "''v1''"]
      data_dir_ok glob_ok n k
    by simp
qed

text \<open>
  One corpus file without records: the loader returns the empty dataset that the library
  returns, or lets the library's exception pass; it does not exit.
\<close>

theorem load_training_data_result_counterexample:
  "path_exists world_empty_corpus ''/app/training data/v1''
   \<and> glob_jsonl world_empty_corpus ''/app/training data/v1'' = [''/app/training data/v1/empty.jsonl'']
   \<and> corpus ''/app/training data/v1/empty.jsonl'' = []
   \<and> fst (load_training_data (OUTPUT_CONFIG ''/app'') world_empty_corpus ''v1'') = Inr []
   \<and> fst (load_training_data (OUTPUT_CONFIG ''/app'') world_empty_rejected ''v1'')
       = Inl (Exception ''DatasetGenerationError''
                ''An error occurred while generating the dataset'')"
proof -
  have c: "corpus ''/app/training data/v1/empty.jsonl'' = []"
    by (simp add: corpus_def)
  have a: "fst (load_training_data (OUTPUT_CONFIG ''/app'') world_empty_corpus ''v1'') = Inr []"
    using load_training_data_fst [of "OUTPUT_CONFIG ''/app''" "''/app/training data''" world_empty_corpus "''v1''"]
      data_dir_ok glob_empty_corpus data_dir_empty_corpus c
    by (simp add: concat_loader_def) (simp add: world_defs concat_loader_def)
  have g: "glob_jsonl world_empty_rejected ''/app/training data/v1'' = [''/app/training data/v1/empty.jsonl'']"
    by (simp add: world_defs glob_jsonl_def path_join_def suffix_to_prefix)
  have e: "path_exists world_empty_rejected ''/app/training data/v1''"
    by (simp add: path_exists_def world_defs)
  have b: "fst (load_training_data (OUTPUT_CONFIG ''/app'') world_empty_rejected ''v1'')
       = Inl (Exception ''DatasetGenerationError'' ''An error occurred while generating the dataset'')"
    using load_training_data_fst [of "OUTPUT_CONFIG ''/app''" "''/app/training data''" world_empty_rejected "''v1''"]
      data_dir_ok g e
    by simp (simp add: world_defs)
  from data_dir_empty_corpus glob_empty_corpus c a b show ?thesis by simp
qed

subsection \<open>C6: crash reports\<close>

lemma crash_report_text_split:
  "crash_report_text w e ctx =
     (rule80 @ ''\<newline>''
      @ ''FINE-TUNING SCRIPT CRASH REPORT\<newline>''
      @ rule80 @ ''\<newline>\<newline>''
      @ ''Timestamp: '' @ strftime_text (now w) @ ''\<newline>''
      @ ''Script: finetune_model.py\<newline>''
      @ ''Python: '' @ sys_version w @ ''\<newline>''
      @ ''Platform: '' @ sys_platform w @ ''\<newline>\<newline>''
      @ ''Configuration:\<newline>''
      @ ''  Method: '' @ FT_method @ ''\<newline>''
      @ ''  Version: '' @ FT_version @ ''\<newline>''
      @ ''  User: '' @ MD_finetuned_by w @ ''\<newline>''
      @ ''  Organization: '' @ MD_organization w @ ''\<newline>''
      @ ''  CUDA Available: '' @ py_bool (cuda_available w) @ ''\<newline>\<newline>'')
     @ context_section ctx
     @ (''Error:\<newline>'' @ exn_line e @ ''\<newline>\<newline>'' @ ''Traceback:\<newline>'' @ format_exc w e)
     @ (''\<newline>'' @ rule80 @ ''\<newline>'')"
  by (simp add: crash_report_text_def)

lemma sublist_context:
  assumes "ctx \<noteq> []"
  shows "sublist (''Context: '' @ ctx @ ''\<newline>\<newline>'') (crash_report_text w e ctx)"
proof -
  have c: "context_section ctx = ''Context: '' @ ctx @ ''\<newline>\<newline>''"
    using assms by (simp add: context_section_def)
  show ?thesis
    unfolding crash_report_text_split c by (rule sublist_appendI)
qed

lemma sublist_in_middle: "sublist xs (a @ b @ xs @ c)"
proof -
  have "a @ b @ xs @ c = (a @ b) @ xs @ c"
    by simp
  then show ?thesis
    by (simp only: sublist_appendI)
qed

lemma sublist_error_traceback:
  "sublist (''Error:\<newline>'' @ exn_line e @ ''\<newline>\<newline>'' @ ''Traceback:\<newline>'' @ format_exc w e)
     (crash_report_text w e ctx)"
  unfolding crash_report_text_split by (rule sublist_in_middle)

lemma format_exc_nonempty: "format_exc w e \<noteq> []"
  by (simp add: format_exc_def)

lemma crash_report_name_second:
  "crash_report_name (t\<lparr>microsecond := u\<rparr>) = crash_report_name t"
  by (simp add: crash_report_name_def strftime_file_def)

text \<open>
  C6, as amended. For an exception (a subclass of \<open>Exception\<close>) raised at any stage of
  the \<open>try\<close> block, the handler writes exactly one crash report and the process exits
  with status 1. The report holds the line of the error, a traceback that is not empty
  and the context \<open>Model: <argv[1]>\<close>, which names the base model and not the stage.
  The file name is built from the clock at the granularity of a second, so reports
  written within the same second have the same name.
\<close>

theorem crash_report_written_by_handler:
  assumes "main_body cfg w = (Inl (Exception t m), evs)"
      and "map_of cfg ''crash_reports_dir'' = Some d"
  shows "main_with cfg w =
           (Exited 1, evs @
             [Print (''[ERROR] Failed: '' @ m),
              MakeDirs d,
              WriteFile (path_join d (crash_report_name (now w)))
                (crash_report_text w (Exception t m)
                   (''Model: '' @ (if length (argv w) > 1 then argv w ! 1 else ''unknown''))),
              Print (''[ERROR] Crash report saved: ''
                     @ path_join d (crash_report_name (now w)))])
       \<and> length (filter (is_crash_report w) (drop (length evs) (snd (main_with cfg w)))) = 1
       \<and> sublist (''Context: Model: '' @ (if length (argv w) > 1 then argv w ! 1 else ''unknown'')
                   @ ''\<newline>\<newline>'')
            (crash_report_text w (Exception t m)
               (''Model: '' @ (if length (argv w) > 1 then argv w ! 1 else ''unknown'')))
       \<and> sublist (''Error:\<newline>'' @ t @ '': '' @ m @ ''\<newline>\<newline>'' @ ''Traceback:\<newline>''
                   @ format_exc w (Exception t m))
            (crash_report_text w (Exception t m)
               (''Model: '' @ (if length (argv w) > 1 then argv w ! 1 else ''unknown'')))
       \<and> format_exc w (Exception t m) \<noteq> []
       \<and> crash_report_name ((now w)\<lparr>microsecond := u\<rparr>) = crash_report_name (now w)"
proof -
  let ?ctx = "''Model: '' @ (if length (argv w) > 1 then argv w ! 1 else ''unknown'')"
  note m = main_with_Exception [OF assms]
  have one: "length (filter (is_crash_report w) (drop (length evs) (snd (main_with cfg w)))) = 1"
    by (simp add: m trace_defs names_file_path_join)
  have "sublist (''Context: '' @ ?ctx @ ''\<newline>\<newline>'') (crash_report_text w (Exception t m) ?ctx)"
    by (rule sublist_context) simp
  then have ctx: "sublist (''Context: Model: '' @ (if length (argv w) > 1 then argv w ! 1 else ''unknown'')
                   @ ''\<newline>\<newline>'') (crash_report_text w (Exception t m) ?ctx)"
    by simp
  have "sublist (''Error:\<newline>'' @ exn_line (Exception t m) @ ''\<newline>\<newline>'' @ ''Traceback:\<newline>''
          @ format_exc w (Exception t m)) (crash_report_text w (Exception t m) ?ctx)"
    by (rule sublist_error_traceback)
  then have err: "sublist (''Error:\<newline>'' @ t @ '': '' @ m @ ''\<newline>\<newline>'' @ ''Traceback:\<newline>''
                   @ format_exc w (Exception t m)) (crash_report_text w (Exception t m) ?ctx)"
    by (simp add: exn_line_def)
  show ?thesis
    by (intro conjI) (rule m one ctx err format_exc_nonempty crash_report_name_second)+
qed

theorem crash_report_written_by_handler_witness:
  "main_body (OUTPUT_CONFIG ''/app'') world_ok
     = (Inl (Exception ''KeyError'' ([CHR 0x27] @ ''documentation_dir'' @ [CHR 0x27])),
        snd (main_body (OUTPUT_CONFIG ''/app'') world_ok))
   \<and> map_of (OUTPUT_CONFIG ''/app'') ''crash_reports_dir'' = Some ''/app/logs''
   \<and> fst (main_with (OUTPUT_CONFIG ''/app'') world_ok) = Exited 1
   \<and> length (filter (is_crash_report world_ok)
        (drop (length (snd (main_body (OUTPUT_CONFIG ''/app'') world_ok)))
           (snd (main_with (OUTPUT_CONFIG ''/app'') world_ok)))) = 1
   \<and> sublist ''Context: Model: Models/base''
        (crash_report_text world_ok (KeyError ''documentation_dir'') ''Model: Models/base'')"
proof -
  have v: "length (argv world_ok) = 2" "os_path_exists world_ok (argv world_ok ! 1)"
    by (simp_all add: world_defs os_path_exists_def path_exists_def)
  have b: "main_body (OUTPUT_CONFIG ''/app'') world_ok
     = (Inl (Exception ''KeyError'' ([CHR 0x27] @ ''documentation_dir'' @ [CHR 0x27])),
        snd (main_body (OUTPUT_CONFIG ''/app'') world_ok))"
    by (simp add: main_body_check_system_raises [OF v] KeyError_def)
  have d: "map_of (OUTPUT_CONFIG ''/app'') ''crash_reports_dir'' = Some ''/app/logs''"
    by (simp add: OUTPUT_CONFIG_def path_join_def)
  have a: "argv world_ok ! 1 = ''Models/base''"
    by (simp add: world_defs)
  note t = crash_report_written_by_handler [OF b d, unfolded a]
  have s: "sublist ''Context: Model: Models/base''
        (crash_report_text world_ok (KeyError ''documentation_dir'') ''Model: Models/base'')"
  proof -
    have "sublist (''Context: Model: Models/base'' @ ''\<newline>\<newline>'')
        (crash_report_text world_ok (KeyError ''documentation_dir'') ''Model: Models/base'')"
      using t v(1) by (simp add: KeyError_def)
    then show ?thesis
      by (rule sublist_order.order_trans [OF sublist_append_rightI])
  qed
  have e: "fst (main_with (OUTPUT_CONFIG ''/app'') world_ok) = Exited 1"
    using t by simp
  have o: "length (filter (is_crash_report world_ok)
        (drop (length (snd (main_body (OUTPUT_CONFIG ''/app'') world_ok)))
           (snd (main_with (OUTPUT_CONFIG ''/app'') world_ok)))) = 1"
    using t by blast
  show ?thesis
    by (intro conjI) (rule b d e o s)+
qed

lemma run_valid_args:
  assumes "length (argv w) = 2" and "os_path_exists w (argv w ! 1)"
  shows "main w =
     (Exited 1, snd (main_body (OUTPUT_CONFIG (script_dir w)) w) @
       [Print (''[ERROR] Failed: '' @ [CHR 0x27] @ ''documentation_dir'' @ [CHR 0x27]),
        MakeDirs (path_join (script_dir w) ''logs''),
        WriteFile (path_join (path_join (script_dir w) ''logs'') (crash_report_name (now w)))
            (crash_report_text w (KeyError ''documentation_dir'') (''Model: '' @ argv w ! 1)),
        Print (''[ERROR] Crash report saved: ''
               @ path_join (path_join (script_dir w) ''logs'') (crash_report_name (now w)))])"
  unfolding main_def
  using main_with_Exception [OF main_body_check_system_raises [OF assms, unfolded KeyError_def]
      OUTPUT_CONFIG_crash_reports_dir] assms(1)
  by (simp add: main_body_check_system_raises [OF assms] KeyError_def)

lemma written_files_append:
  "written_files (xs @ ys) = foldl apply_event (written_files xs) ys"
  by (simp add: written_files_def)

lemma written_files_valid_run:
  assumes "length (argv w) = 2" and "os_path_exists w (argv w ! 1)"
  shows "foldl apply_event fs (snd (main w)) =
         store_write (path_join (path_join (script_dir w) ''logs'') (crash_report_name (now w)))
           (crash_report_text w (KeyError ''documentation_dir'') (''Model: '' @ argv w ! 1)) fs"
  by (simp add: run_valid_args [OF assms] main_body_check_system_raises [OF assms])

text \<open>
  Two failing runs within the same second: one report file, holding the report of the
  second run.
\<close>

theorem crash_report_written_by_handler_counterexample:
  "now world_ok \<noteq> now world_later
   \<and> fst (main world_ok) = Exited 1
   \<and> fst (main world_later) = Exited 1
   \<and> written_files (snd (main world_ok))
       = [(''/app/logs/crash_report_finetune_model_2025-01-15_10-30-07.log'',
           crash_report_text world_ok (KeyError ''documentation_dir'') ''Model: Models/base'')]
   \<and> written_files (snd (main world_ok) @ snd (main world_later))
       = [(''/app/logs/crash_report_finetune_model_2025-01-15_10-30-07.log'',
           crash_report_text world_later (KeyError ''documentation_dir'') ''Model: Models/other'')]
   \<and> crash_report_text world_ok (KeyError ''documentation_dir'') ''Model: Models/base''
       \<noteq> crash_report_text world_later (KeyError ''documentation_dir'') ''Model: Models/other''"
proof -
  have v1: "length (argv world_ok) = 2" "os_path_exists world_ok (argv world_ok ! 1)"
    by (simp_all add: world_defs os_path_exists_def path_exists_def)
  have v2: "length (argv world_later) = 2" "os_path_exists world_later (argv world_later ! 1)"
    by (simp_all add: world_defs os_path_exists_def path_exists_def)
  have n: "now world_ok \<noteq> now world_later"
    by (simp add: world_defs)
  have p1: "path_join (path_join (script_dir world_ok) ''logs'') (crash_report_name (now world_ok))
            = ''/app/logs/crash_report_finetune_model_2025-01-15_10-30-07.log''"
    by (simp add: world_defs eval_defs)
  have p2: "path_join (path_join (script_dir world_later) ''logs'') (crash_report_name (now world_later))
            = ''/app/logs/crash_report_finetune_model_2025-01-15_10-30-07.log''"
    by (simp add: world_defs eval_defs)
  have a1: "argv world_ok ! 1 = ''Models/base''" and a2: "argv world_later ! 1 = ''Models/other''"
    by (simp_all add: world_defs)
  have e1: "fst (main world_ok) = Exited 1"
    by (simp add: run_valid_args [OF v1])
  have e2: "fst (main world_later) = Exited 1"
    by (simp add: run_valid_args [OF v2])
  have w1: "written_files (snd (main world_ok))
       = [(''/app/logs/crash_report_finetune_model_2025-01-15_10-30-07.log'',
           crash_report_text world_ok (KeyError ''documentation_dir'') ''Model: Models/base'')]"
    unfolding written_files_def written_files_valid_run [OF v1] p1 a1 by simp
  have w2: "written_files (snd (main world_ok) @ snd (main world_later))
       = [(''/app/logs/crash_report_finetune_model_2025-01-15_10-30-07.log'',
           crash_report_text world_later (KeyError ''documentation_dir'') ''Model: Models/other'')]"
    unfolding written_files_append w1 written_files_valid_run [OF v2] p2 a2 by simp
  have d: "crash_report_text world_ok (KeyError ''documentation_dir'') ''Model: Models/base''
       \<noteq> crash_report_text world_later (KeyError ''documentation_dir'') ''Model: Models/other''"
    unfolding crash_report_text_split
    by (simp add: context_section_def world_defs strftime_text_def MD_finetuned_by_def
        MD_organization_def)
  show ?thesis
    by (intro conjI) (rule n e1 e2 w1 w2 d)+
qed

subsection \<open>C3: rows of fixed length\<close>









text \<open>
  The three flags decide the shape of the rows: padded to the longest text of the
  batch, a short text keeps its own length; without truncation, a long text keeps
  all its ids.
\<close>

lemma tokenizer_call_padding_longest:
  assumes "pad_token tok = Some pad"
  shows "tokenizer_call tok [text] True (Some n) Longest
         = Inr [unpadded (take n (encode tok text))]"
  using assms by (simp add: tokenizer_call_def pad_to_def unpadded_def Let_def)

lemma tokenizer_call_without_truncation:
  assumes "pad_token tok = Some pad" and "n \<le> length (encode tok text)"
  shows "tokenizer_call tok [text] False (Some n) MaxLength
         = Inr [unpadded (encode tok text)]"
  using assms by (simp add: tokenizer_call_def pad_to_def unpadded_def Let_def)

lemma tokenizer_call_without_pad_token:
  assumes "pad_token tok = None"
  shows "tokenize_function tok texts = Inl no_pad_token_error"
  using assms by (simp add: tokenize_function_def tokenizer_call_def)

text \<open>
  A dataset without rows has no column \<open>text\<close> after the first \<open>map\<close>, and the second
  \<open>map\<close>, which removes that column, raises.
\<close>

lemma prepare_dataset_no_rows:
  assumes "fault w ''Dataset.map(format_instruction)'' = None"
      and "fault w ''Dataset.map(tokenize_function)'' = None"
  shows "fst (prepare_dataset w [] tok) = Inl missing_column_error"
  using assms by (simp add: prepare_dataset_def call_def io_defs)



subsection \<open>C5: the licence record of the packaging step\<close>

lemma last_path_join: "b \<noteq> [] \<Longrightarrow> last (path_join d b) = last b"
  by (simp add: path_join_def)

lemma names_file_last:
  assumes "names_file a p" and "a \<noteq> []"
  shows "last p = last a"
  using assms by (auto simp: names_file_def suffix_def)

lemma config_is_no_license_log:
  "\<not> names_file (missing_license_name t) (path_join od ''finetuning_config.json'')"
proof
  assume "names_file (missing_license_name t) (path_join od ''finetuning_config.json'')"
  then have "last (path_join od ''finetuning_config.json'') = last (missing_license_name t)"
    by (rule names_file_last) (simp add: missing_license_name_def)
  then show False
    by (simp add: last_path_join missing_license_name_def)
qed

lemma copy_license_or_log_Inr:
  assumes "copy_license_or_log cfg w src out = (Inr u, evs)"
  shows "if path_exists w (path_join src ''LICENSE'')
         then evs = [CopyFile (path_join src ''LICENSE'') (path_join out ''LICENSE''),
                     Print ''[SUCCESS] Copied LICENSE to output'']
         else (\<exists>d. map_of cfg ''crash_reports_dir'' = Some d
                 \<and> evs = [MakeDirs d,
                          WriteFile (path_join d (missing_license_name (now w)))
                            (missing_license_text w src out),
                          Print (''[WARNING] No LICENSE found - logged to: ''
                                 @ path_join d (missing_license_name (now w)))])"
  using assms
  by (auto simp: copy_license_or_log_def Let_def Inr_iffs print_success_def print_warning_def
      split: if_splits option.splits)

lemma train_model_Inr:
  assumes "train_model cfg w mdl tok ds name v = (Inr out, evs)"
      and "1 < length (argv w)" and "argv w ! 1 \<noteq> []"
  shows "\<exists>md pre lic post.
           map_of cfg ''models_dir'' = Some md
         \<and> out = path_join md (name @ ''_ft_'' @ v)
         \<and> copy_license_or_log cfg w (argv w ! 1) out = (Inr (), lic)
         \<and> evs = pre @ lic @ post
         \<and> filter is_license_copy pre = [] \<and> filter (is_missing_license_log w) pre = []
         \<and> filter is_license_copy post = [] \<and> filter (is_missing_license_log w) post = []"
proof -
  from assms(1) obtain md where md: "map_of cfg ''models_dir'' = Some md"
    by (auto simp: train_model_def Let_def Inr_iffs)
  let ?out = "path_join md (name @ ''_ft_'' @ v)"
  let ?pre = "[Print (''\<newline>'' @ rule80), Print ''  Fine-Tuning Model'', Print (rule80 @ ''\<newline>''),
               Invoke ''TrainingArguments'' [?out], Invoke ''DataCollatorForLanguageModeling'' [],
               Invoke ''Trainer'' [?out], Print ''[INFO] Starting training...'',
               Invoke ''Trainer.train'' [?out], Print ''[INFO] Saving model...'',
               Invoke ''model.save_pretrained'' [?out], Invoke ''tokenizer.save_pretrained'' [?out]]"
  let ?post = "[WriteFile (path_join ?out ''finetuning_config.json'') (finetuning_config_json w v),
                Print (''[SUCCESS] Model saved: '' @ ?out)]"
  from assms md obtain lic where
    out: "out = ?out" and lic: "copy_license_or_log cfg w (argv w ! 1) ?out = (Inr (), lic)"
    and evs: "evs = ?pre @ lic @ ?post"
    by (auto simp: train_model_def Let_def Inr_iffs print_info_def print_success_def)
  have "filter is_license_copy ?pre = []" "filter (is_missing_license_log w) ?pre = []"
    "filter is_license_copy ?post = []"
    by (simp_all add: trace_defs)
  moreover have "filter (is_missing_license_log w) ?post = []"
    by (simp add: trace_defs config_is_no_license_log)
  ultimately show ?thesis
    using md out lic evs by blast
qed

lemma license_recorded_once_step:
  assumes "copy_license_or_log (OUTPUT_CONFIG sd) w (argv w ! 1) out = (Inr (), lic)"
  shows "license_recorded_once w (path_join sd ''logs'') out lic"
proof (cases "path_exists w (path_join (argv w ! 1) ''LICENSE'')")
  case True
  with copy_license_or_log_Inr [OF assms]
  have "lic = [CopyFile (path_join (argv w ! 1) ''LICENSE'') (path_join out ''LICENSE''),
               Print ''[SUCCESS] Copied LICENSE to output'']"
    by simp
  with True show ?thesis
    by (simp add: license_recorded_once_def trace_defs names_file_path_join)
next
  case False
  with copy_license_or_log_Inr [OF assms]
  have "lic = [MakeDirs (path_join sd ''logs''),
               WriteFile (path_join (path_join sd ''logs'') (missing_license_name (now w)))
                 (missing_license_text w (argv w ! 1) out),
               Print (''[WARNING] No LICENSE found - logged to: ''
                      @ path_join (path_join sd ''logs'') (missing_license_name (now w)))]"
    by (simp add: OUTPUT_CONFIG_def)
  with False show ?thesis
    by (simp add: license_recorded_once_def trace_defs names_file_path_join)
qed

lemma license_recorded_once_context:
  assumes "license_recorded_once w logs out lic"
      and "filter is_license_copy pre = []" and "filter (is_missing_license_log w) pre = []"
      and "filter is_license_copy post = []" and "filter (is_missing_license_log w) post = []"
  shows "license_recorded_once w logs out (pre @ lic @ post)"
  using assms by (simp add: license_recorded_once_def)

lemma train_model_returns:
  assumes "1 < length (argv w)" and "argv w ! 1 \<noteq> []"
      and "\<forall>site \<in> set [''TrainingArguments'', ''DataCollatorForLanguageModeling'', ''Trainer'',
                          ''Trainer.train'', ''model.save_pretrained'',
                          ''tokenizer.save_pretrained'', ''shutil.copy2'',
                          ''finetuning_config.json'']. fault w site = None"
  shows "fst (train_model (OUTPUT_CONFIG sd) w mdl tok ds name v)
         = Inr (path_join (path_join sd ''Models'') (name @ ''_ft_'' @ v))"
  using assms
  by (simp add: train_model_def copy_license_or_log_def call_def write_file_def io_defs
      OUTPUT_CONFIG_def getitem_def Let_def)

text \<open>The packaging step in \<open>world_ok\<close> and in \<open>world_licensed\<close>.\<close>

lemma train_model_args_ok:
  "1 < length (argv world_ok)" "argv world_ok ! 1 \<noteq> []"
  "1 < length (argv world_licensed)" "argv world_licensed ! 1 \<noteq> []"
  by (simp_all add: world_defs)

lemma train_model_faults_ok:
  "\<forall>site \<in> set [''TrainingArguments'', ''DataCollatorForLanguageModeling'', ''Trainer'',
                   ''Trainer.train'', ''model.save_pretrained'',
                   ''tokenizer.save_pretrained'', ''shutil.copy2'',
                   ''finetuning_config.json'']. fault world_ok site = None"
  "\<forall>site \<in> set [''TrainingArguments'', ''DataCollatorForLanguageModeling'', ''Trainer'',
                   ''Trainer.train'', ''model.save_pretrained'',
                   ''tokenizer.save_pretrained'', ''shutil.copy2'',
                   ''finetuning_config.json'']. fault world_licensed site = None"
  by (simp_all add: world_defs)

lemma license_worlds:
  "script_dir world_ok = ''/app''" "script_dir world_licensed = ''/app''"
  "argv world_ok ! 1 = ''Models/base''" "argv world_licensed ! 1 = ''Models/base''"
  "\<not> path_exists world_ok ''Models/base/LICENSE''"
  "path_exists world_licensed ''Models/base/LICENSE''"
  "now world_licensed = now world_ok"
  by (simp_all add: world_defs path_exists_def)

lemma license_paths:
  "path_join (path_join ''/app'' ''Models'') (''base'' @ ''_ft_'' @ ''v1'') = ''/app/Models/base_ft_v1''"
  "path_join ''/app'' ''logs'' = ''/app/logs''"
  "path_join ''Models/base'' ''LICENSE'' = ''Models/base/LICENSE''"
  "path_join ''/app/Models/base_ft_v1'' ''LICENSE'' = ''/app/Models/base_ft_v1/LICENSE''"
  "path_join ''/app/logs'' (missing_license_name (now world_ok))
     = ''/app/logs/missing_license_2025-01-15_10-30-07.log''"
  by (simp_all add: world_defs eval_defs)

text \<open>
  C5. In a run with a base-model argument, on the dict of the source: whenever the
  packaging step \<open>train_model\<close> returns, it returns the artifact directory
  \<open>Models/<name>_ft_<version>\<close> and its events hold exactly one licence record. When
  the base-model directory holds a file \<open>LICENSE\<close>, the only copy from or to a file of
  that name is the copy of that file to \<open>LICENSE\<close> in the artifact directory, and no
  missing-licence log is written; otherwise no such copy is made, and the only
  missing-licence log is \<open>missing_license_<timestamp>.log\<close> in the directory \<open>logs\<close>
  beside the script, with the text of the script. The step returns when none of its
  library calls and writes fails.
\<close>

theorem license_copied_or_logged:
  assumes "1 < length (argv w)" and "argv w ! 1 \<noteq> []"
  shows "(train_model (OUTPUT_CONFIG (script_dir w)) w mdl tok ds name v = (Inr out, evs) \<longrightarrow>
            out = path_join (path_join (script_dir w) ''Models'') (name @ ''_ft_'' @ v)
          \<and> license_recorded_once w (path_join (script_dir w) ''logs'') out evs)
       \<and> ((\<forall>site \<in> set [''TrainingArguments'', ''DataCollatorForLanguageModeling'', ''Trainer'',
                          ''Trainer.train'', ''model.save_pretrained'',
                          ''tokenizer.save_pretrained'', ''shutil.copy2'',
                          ''finetuning_config.json'']. fault w site = None) \<longrightarrow>
            fst (train_model (OUTPUT_CONFIG (script_dir w)) w mdl tok ds name v)
              = Inr (path_join (path_join (script_dir w) ''Models'') (name @ ''_ft_'' @ v)))"
proof (intro conjI impI)
  assume run: "train_model (OUTPUT_CONFIG (script_dir w)) w mdl tok ds name v = (Inr out, evs)"
  from train_model_Inr [OF run assms] obtain md pre lic post where
    md: "map_of (OUTPUT_CONFIG (script_dir w)) ''models_dir'' = Some md"
    and out: "out = path_join md (name @ ''_ft_'' @ v)"
    and lic: "copy_license_or_log (OUTPUT_CONFIG (script_dir w)) w (argv w ! 1) out = (Inr (), lic)"
    and evs: "evs = pre @ lic @ post"
    and free: "filter is_license_copy pre = []" "filter (is_missing_license_log w) pre = []"
      "filter is_license_copy post = []" "filter (is_missing_license_log w) post = []"
    by blast
  from md out show "out = path_join (path_join (script_dir w) ''Models'') (name @ ''_ft_'' @ v)"
    by (simp add: OUTPUT_CONFIG_def)
  show "license_recorded_once w (path_join (script_dir w) ''logs'') out evs"
    unfolding evs
    by (rule license_recorded_once_context [OF license_recorded_once_step [OF lic] free])
next
  assume "\<forall>site \<in> set [''TrainingArguments'', ''DataCollatorForLanguageModeling'', ''Trainer'',
                          ''Trainer.train'', ''model.save_pretrained'',
                          ''tokenizer.save_pretrained'', ''shutil.copy2'',
                          ''finetuning_config.json'']. fault w site = None"
  with assms show "fst (train_model (OUTPUT_CONFIG (script_dir w)) w mdl tok ds name v)
              = Inr (path_join (path_join (script_dir w) ''Models'') (name @ ''_ft_'' @ v))"
    by (rule train_model_returns)
qed

text \<open>A base model without and with licence file, on the dict of the source.\<close>

theorem license_copied_or_logged_witness:
  "1 < length (argv world_ok) \<and> argv world_ok ! 1 \<noteq> []
 \<and> \<not> path_exists world_ok ''Models/base/LICENSE''
 \<and> fst (train_model (OUTPUT_CONFIG ''/app'') world_ok model_ok tokenizer_ok [] ''base'' ''v1'')
     = Inr ''/app/Models/base_ft_v1''
 \<and> filter is_license_copy
      (snd (train_model (OUTPUT_CONFIG ''/app'') world_ok model_ok tokenizer_ok [] ''base'' ''v1''))
     = []
 \<and> filter (is_missing_license_log world_ok)
      (snd (train_model (OUTPUT_CONFIG ''/app'') world_ok model_ok tokenizer_ok [] ''base'' ''v1''))
     = [WriteFile ''/app/logs/missing_license_2025-01-15_10-30-07.log''
          (missing_license_text world_ok ''Models/base'' ''/app/Models/base_ft_v1'')]
 \<and> 1 < length (argv world_licensed) \<and> argv world_licensed ! 1 \<noteq> []
 \<and> path_exists world_licensed ''Models/base/LICENSE''
 \<and> fst (train_model (OUTPUT_CONFIG ''/app'') world_licensed model_ok tokenizer_ok [] ''base'' ''v1'')
     = Inr ''/app/Models/base_ft_v1''
 \<and> filter is_license_copy
      (snd (train_model (OUTPUT_CONFIG ''/app'') world_licensed model_ok tokenizer_ok [] ''base'' ''v1''))
     = [CopyFile ''Models/base/LICENSE'' ''/app/Models/base_ft_v1/LICENSE'']
 \<and> filter (is_missing_license_log world_licensed)
      (snd (train_model (OUTPUT_CONFIG ''/app'') world_licensed model_ok tokenizer_ok [] ''base'' ''v1''))
     = []"
proof -
  let ?run = "\<lambda>w. train_model (OUTPUT_CONFIG ''/app'') w model_ok tokenizer_ok [] ''base'' ''v1''"
  note ok = license_copied_or_logged
    [where w = world_ok and mdl = model_ok and tok = tokenizer_ok and ds = "[]"
       and name = "''base''" and v = "''v1''" and out = "''/app/Models/base_ft_v1''"
       and evs = "snd (?run world_ok)",
     OF train_model_args_ok(1,2), unfolded license_worlds license_paths]
  note licensed = license_copied_or_logged
    [where w = world_licensed and mdl = model_ok and tok = tokenizer_ok and ds = "[]"
       and name = "''base''" and v = "''v1''" and out = "''/app/Models/base_ft_v1''"
       and evs = "snd (?run world_licensed)",
     OF train_model_args_ok(3,4), unfolded license_worlds license_paths]
  have ret: "fst (?run world_ok) = Inr ''/app/Models/base_ft_v1''"
    using ok train_model_faults_ok(1) by blast
  have ret_l: "fst (?run world_licensed) = Inr ''/app/Models/base_ft_v1''"
    using licensed train_model_faults_ok(2) by blast
  have "license_recorded_once world_ok ''/app/logs'' ''/app/Models/base_ft_v1''
          (snd (?run world_ok))"
    using ok pair_of_fst [OF ret] by blast
  then have log: "filter is_license_copy (snd (?run world_ok)) = []
     \<and> filter (is_missing_license_log world_ok) (snd (?run world_ok))
       = [WriteFile ''/app/logs/missing_license_2025-01-15_10-30-07.log''
            (missing_license_text world_ok ''Models/base'' ''/app/Models/base_ft_v1'')]"
    unfolding license_recorded_once_def license_worlds license_paths
    by (simp only: license_worlds if_False)
  have "license_recorded_once world_licensed ''/app/logs'' ''/app/Models/base_ft_v1''
          (snd (?run world_licensed))"
    using licensed pair_of_fst [OF ret_l] by blast
  then have copy: "filter is_license_copy (snd (?run world_licensed))
       = [CopyFile ''Models/base/LICENSE'' ''/app/Models/base_ft_v1/LICENSE'']
     \<and> filter (is_missing_license_log world_licensed) (snd (?run world_licensed)) = []"
    unfolding license_recorded_once_def license_worlds license_paths
    by (simp only: license_worlds if_True)
  show ?thesis
    by (intro conjI) (rule train_model_args_ok license_worlds ret ret_l
        log [THEN conjunct1] log [THEN conjunct2] copy [THEN conjunct1] copy [THEN conjunct2])+
qed

subsection \<open>C7: failure of the documentation write\<close>
















































end
